theory Spec2Isabelle
  imports Main "HOL-Library.AList" "HOL-Library.Char_ord" "HOL-Library.List_Lexorder"
    "HOL-Library.Sublist"
begin

section \<open>The template management script \<open>init.py\<close>\<close>

text \<open>
  The script selects document templates (a report template, a slide template), copies
  them into a target directory and runs \<open>make\<close> in the copies. Everything it does is an
  effect on its surroundings: the file system, the console and the \<open>make\<close> process. The
  embedding makes these surroundings explicit:
  \<^item> the file system is a tree of named entries (\<open>node\<close>), a directory listing its
    entries in the order the operating system enumerates them;
  \<^item> the console is the list of lines still to be read from standard input and the list
    of messages printed so far;
  \<^item> \<open>make\<close>, the argument parser, the default target path (it depends on the clock and
    on the home directory) and the resolution of a path given by the user are parameters
    of the run (\<open>env\<close>); the last two can raise an exception;
  \<^item> a Python exception, \<open>sys.exit\<close> and a normal return are the three results of a
    computation (\<open>res\<close>).
  Strings are byte strings; the whitespace of \<open>str.strip\<close> and of \<open>int\<close> and the letter
  case of \<open>str.lower\<close> are those of ASCII strings. Paths are lists of component names, taken
  as the operating system has resolved them (no symbolic links, no \<open>.\<close> or \<open>..\<close>
  components); permissions are not modelled, so the only file system errors are those of
  a missing entry or of an entry of the wrong kind.
\<close>

subsection \<open>Strings\<close>

definition is_space :: "char \<Rightarrow> bool" where
  "is_space c = (let n = (of_char c :: nat) in (9 \<le> n \<and> n \<le> 13) \<or> (28 \<le> n \<and> n \<le> 32))"

definition strip :: "string \<Rightarrow> string" where
  "strip s = rev (dropWhile is_space (rev (dropWhile is_space s)))"

definition lower_char :: "char \<Rightarrow> char" where
  "lower_char c = (let n = (of_char c :: nat) in
     if 65 \<le> n \<and> n \<le> 90 then char_of (n + 32) else c)"

definition lower :: "string \<Rightarrow> string" where
  "lower s = map lower_char s"

definition is_digit :: "char \<Rightarrow> bool" where
  "is_digit c = (let n = (of_char c :: nat) in 48 \<le> n \<and> n \<le> 57)"

text \<open>
  \<open>int(s)\<close> on a string: surrounding whitespace is dropped, one sign is allowed, and the
  digits may be grouped by single underscores. Anything else raises \<open>ValueError\<close>, which
  is the value \<open>None\<close> here. The whitespace that \<open>int\<close> drops is that of the C locale
  (tab to carriage return, and the space); the separators \<open>0x1C\<close> to \<open>0x1F\<close>, which
  \<open>str.strip\<close> drops, are not part of it.
\<close>

definition is_int_space :: "char \<Rightarrow> bool" where
  "is_int_space c = (let n = (of_char c :: nat) in (9 \<le> n \<and> n \<le> 13) \<or> n = 32)"

fun digit_groups_ok :: "string \<Rightarrow> bool" where
  "digit_groups_ok [] = False"
| "digit_groups_ok [c] = is_digit c"
| "digit_groups_ok (c # d # cs) =
     (is_digit c \<and> (if d = CHR ''_'' then digit_groups_ok cs else digit_groups_ok (d # cs)))"

definition digits_value :: "string \<Rightarrow> int" where
  "digits_value s = foldl (\<lambda>acc c. 10 * acc + (int (of_char c) - 48)) 0
     (filter (\<lambda>c. c \<noteq> CHR ''_'') s)"

definition py_int :: "string \<Rightarrow> int option" where
  "py_int s =
     (let t = rev (dropWhile is_int_space (rev (dropWhile is_int_space s)));
          neg = (t \<noteq> [] \<and> hd t = CHR ''-'');
          body = (if t \<noteq> [] \<and> (hd t = CHR ''-'' \<or> hd t = CHR ''+'') then tl t else t)
      in if digit_groups_ok body
         then Some (if neg then - digits_value body else digits_value body)
         else None)"

text \<open>
  Shell-style name matching (\<open>fnmatch\<close>, also behind \<open>Path.glob\<close>): \<open>*\<close> stands for any
  run of characters, \<open>?\<close> for one character, every other character for itself. The
  patterns of the script use \<open>*\<close> and plain characters only (no bracket expressions).
\<close>

fun fnmatch :: "string \<Rightarrow> string \<Rightarrow> bool" where
  "fnmatch [] [] = True"
| "fnmatch (c # cs) [] = False"
| "fnmatch [] (p # ps) = (p = CHR ''*'' \<and> fnmatch [] ps)"
| "fnmatch (c # cs) (p # ps) =
     (if p = CHR ''*'' then fnmatch (c # cs) ps \<or> fnmatch cs (p # ps)
      else (p = CHR ''?'' \<or> p = c) \<and> fnmatch cs ps)"

subsection \<open>Paths\<close>

type_synonym path = "string list"

text \<open>
  \<open>p / s\<close> of \<open>pathlib\<close>: the string is cut at the separators, empty components and \<open>.\<close>
  are dropped, and an absolute string replaces the path on the left.
\<close>

fun split_sep :: "string \<Rightarrow> string list" where
  "split_sep [] = [[]]"
| "split_sep (c # cs) =
     (if c = CHR ''/'' then [] # split_sep cs
      else (case split_sep cs of [] \<Rightarrow> [[c]] | w # ws \<Rightarrow> (c # w) # ws))"

definition parts :: "string \<Rightarrow> path" where
  "parts s = filter (\<lambda>c. c \<noteq> [] \<and> c \<noteq> ''.'') (split_sep s)"

definition joinpath :: "path \<Rightarrow> string \<Rightarrow> path" where
  "joinpath p s = (if s \<noteq> [] \<and> hd s = CHR ''/'' then parts s else p @ parts s)"

subsection \<open>The file system\<close>

datatype node = File string | Dir "(string \<times> node) list"

datatype py_error =
    EOFError | KeyError string | RuntimeError | FileNotFoundError | FileExistsError
  | NotADirectoryError | IsADirectoryError | SameFileError | ShutilError

fun lookup :: "node \<Rightarrow> path \<Rightarrow> node option" where
  "lookup n [] = Some n"
| "lookup (File c) (x # xs) = None"
| "lookup (Dir es) (x # xs) = (case map_of es x of None \<Rightarrow> None | Some n \<Rightarrow> lookup n xs)"

definition exists :: "node \<Rightarrow> path \<Rightarrow> bool" where
  "exists root p = (lookup root p \<noteq> None)"

fun is_Dir :: "node \<Rightarrow> bool" where
  "is_Dir (Dir es) = True"
| "is_Dir (File c) = False"

definition is_dir :: "node \<Rightarrow> path \<Rightarrow> bool" where
  "is_dir root p = (case lookup root p of Some n \<Rightarrow> is_Dir n | None \<Rightarrow> False)"

text \<open>
  \<open>put root p n\<close> makes \<open>n\<close> the entry at \<open>p\<close>, replacing an entry of that name or adding
  one at the end of the listing of its directory. The directory of \<open>p\<close> must exist.
\<close>

fun put :: "node \<Rightarrow> path \<Rightarrow> node \<Rightarrow> (py_error + node)" where
  "put root [] n = Inr n"
| "put (File c) (x # xs) n = Inl NotADirectoryError"
| "put (Dir es) [x] n = Inr (Dir (AList.update x n es))"
| "put (Dir es) (x # y # ys) n =
     (case map_of es x of
        None \<Rightarrow> Inl FileNotFoundError
      | Some ch \<Rightarrow>
          (case put ch (y # ys) n of
             Inl e \<Rightarrow> Inl e
           | Inr ch' \<Rightarrow> Inr (Dir (AList.update x ch' es))))"

fun remove :: "node \<Rightarrow> path \<Rightarrow> (py_error + node)" where
  "remove root [] = Inl FileNotFoundError"
| "remove (File c) (x # xs) = Inl NotADirectoryError"
| "remove (Dir es) [x] =
     (if map_of es x = None then Inl FileNotFoundError else Inr (Dir (AList.delete x es)))"
| "remove (Dir es) (x # y # ys) =
     (case map_of es x of
        None \<Rightarrow> Inl FileNotFoundError
      | Some ch \<Rightarrow>
          (case remove ch (y # ys) of
             Inl e \<Rightarrow> Inl e
           | Inr ch' \<Rightarrow> Inr (Dir (AList.update x ch' es))))"

text \<open>
  \<open>Path.mkdir(parents=True, exist_ok=True)\<close>: missing directories along the path are
  created, an existing directory is left as it is, and a file in the way is an error.
\<close>

fun mkdir_parents :: "node \<Rightarrow> path \<Rightarrow> (py_error + node)" where
  "mkdir_parents (Dir es) [] = Inr (Dir es)"
| "mkdir_parents (File c) [] = Inl FileExistsError"
| "mkdir_parents (File c) (x # xs) = Inl NotADirectoryError"
| "mkdir_parents (Dir es) (x # xs) =
     (case mkdir_parents (case map_of es x of None \<Rightarrow> Dir [] | Some ch \<Rightarrow> ch) xs of
        Inl e \<Rightarrow> Inl e
      | Inr ch' \<Rightarrow> Inr (Dir (AList.update x ch' es)))"

text \<open>
  \<open>shutil.copytree(src, dst, ignore=ignore_patterns(...))\<close> copies a directory level by
  level; at each level the entries whose name matches a pattern are left out, files and
  directories alike.
\<close>

fun copy_filtered :: "(string \<Rightarrow> bool) \<Rightarrow> node \<Rightarrow> node" where
  "copy_filtered ig (File c) = File c"
| "copy_filtered ig (Dir es) =
     Dir (map (\<lambda>e. (fst e, copy_filtered ig (snd e))) (filter (\<lambda>e. \<not> ig (fst e)) es))"

fun makedirs_put :: "node \<Rightarrow> path \<Rightarrow> node \<Rightarrow> (py_error + node)" where
  "makedirs_put root [] n = Inl FileExistsError"
| "makedirs_put (File c) (x # xs) n = Inl NotADirectoryError"
| "makedirs_put (Dir es) [x] n =
     (if map_of es x \<noteq> None then Inl FileExistsError else Inr (Dir (AList.update x n es)))"
| "makedirs_put (Dir es) (x # y # ys) n =
     (case makedirs_put (case map_of es x of None \<Rightarrow> Dir [] | Some ch \<Rightarrow> ch) (y # ys) n of
        Inl e \<Rightarrow> Inl e
      | Inr ch' \<Rightarrow> Inr (Dir (AList.update x ch' es)))"

text \<open>
  A destination inside the source, below a directory that the copy walks into, makes the
  library copy its own output without end, until the operating system refuses a path and
  \<open>shutil.Error\<close> is raised. The file system left behind by that run is not modelled.
  A destination directly inside the source is not seen by the copy: the listing of the
  source is read before the destination is created.
\<close>

definition copies_itself :: "node \<Rightarrow> path \<Rightarrow> path \<Rightarrow> (string \<Rightarrow> bool) \<Rightarrow> bool" where
  "copies_itself root src dst ig =
     (let rel = drop (length src) dst in
      take (length src) dst = src \<and> 2 \<le> length rel \<and> is_dir root (src @ [hd rel])
      \<and> \<not> list_ex ig (butlast rel))"

definition copytree :: "node \<Rightarrow> path \<Rightarrow> path \<Rightarrow> (string \<Rightarrow> bool) \<Rightarrow> (py_error + node)" where
  "copytree root src dst ig =
     (case lookup root src of
        None \<Rightarrow> Inl FileNotFoundError
      | Some (File c) \<Rightarrow> Inl NotADirectoryError
      | Some (Dir es) \<Rightarrow>
          if copies_itself root src dst ig then Inl ShutilError
          else makedirs_put root dst (copy_filtered ig (Dir es)))"

definition rmtree :: "node \<Rightarrow> path \<Rightarrow> (py_error + node)" where
  "rmtree root p =
     (case lookup root p of
        None \<Rightarrow> Inl FileNotFoundError
      | Some (File c) \<Rightarrow> Inl NotADirectoryError
      | Some (Dir es) \<Rightarrow> remove root p)"

text \<open>
  \<open>shutil.copy2(src, dst)\<close>: a destination that is a directory stands for the entry of
  the source's name inside it; the source must be a file, the destination must not be
  the source, and the directory of the destination must exist.
\<close>

definition copy2 :: "node \<Rightarrow> path \<Rightarrow> path \<Rightarrow> (py_error + node)" where
  "copy2 root src dst =
     (let dst' = (if is_dir root dst \<and> src \<noteq> [] then dst @ [last src] else dst) in
      if exists root dst' \<and> src = dst' then Inl SameFileError
      else (case lookup root src of
              None \<Rightarrow> Inl FileNotFoundError
            | Some (Dir es) \<Rightarrow> Inl IsADirectoryError
            | Some (File c) \<Rightarrow>
                if is_dir root dst' then Inl IsADirectoryError else put root dst' (File c)))"

text \<open>
  \<open>os.walk(top)\<close>, top-down: a directory, with the names of its subdirectories and of
  its other entries, comes before the directories below it, and the subdirectories are
  walked one after the other in the order of the listing.
\<close>

fun os_walk :: "path \<Rightarrow> node \<Rightarrow> (path \<times> string list \<times> string list) list" where
  "os_walk d (File c) = []"
| "os_walk d (Dir es) =
     (d, map fst (filter (\<lambda>e. is_Dir (snd e)) es), map fst (filter (\<lambda>e. \<not> is_Dir (snd e)) es))
     # concat (map (\<lambda>e. os_walk (d @ [fst e]) (snd e)) (filter (\<lambda>e. is_Dir (snd e)) es))"

text \<open>\<open>Path.glob\<close> with a pattern of one component: the matching entries of a directory.\<close>

definition glob :: "node \<Rightarrow> path \<Rightarrow> string \<Rightarrow> string list" where
  "glob root d pat =
     (case lookup root d of
        Some (Dir es) \<Rightarrow> filter (\<lambda>n. fnmatch n pat) (map fst es)
      | _ \<Rightarrow> [])"

subsection \<open>The console, the build tool and the results of a computation\<close>

text \<open>
  The script prints Chinese text; each line it can print is a constructor here, with the
  values the line is formatted from, grouped by what the line is about: the menus of the
  interactive selection, the copies, the builds, and the run as a whole. An \<open>input\<close>
  call prints its prompt.
\<close>

datatype menu_msg =
    Title_select | Header_report | Header_slide | Item_none | Item nat string string
  | Prompt_report nat | Prompt_slide nat | Prompt_ppt nat | Prompt_target
  | Invalid_choice_report | Invalid_input_report | Invalid_choice_slide | Invalid_input_slide
  | Header_ppt | Item_ppt nat string | Invalid_choice | Invalid_input
  | Header_target | Default_path path

datatype copy_msg =
    Err_source_missing path | Err_ppt_missing path | Copied_ppt string path
  | Prompt_overwrite path | Copy_cancelled | Copied string path

datatype build_msg =
    No_build_needed string | Warn_no_makefile string | Found_makefile path
  | Compiling string | Build_ok string | Build_failed string
  | Stdout_header | Stderr_header | Captured string | Err_no_make | Err_build_exception string

datatype run_msg =
    Rule | Rule_after_blank | Rule_then_blank
  | Err_not_in_root | No_ppt_found | Err_ppt_required | Available_ppt "string list"
  | Err_none_selected | Title_selected | Selected_report string | Selected_slide string
  | Selected_slide_ppt string "string option" | Selected_target path
  | Prompt_confirm | Cancelled | Err_copy | Title_compile | Title_done | Copied_to path
  | All_built | Some_build_failed

datatype msg = Menu menu_msg | Copying copy_msg | Building build_msg | Run run_msg

text \<open>
  What \<open>subprocess.run(['make'], cwd=d, check=False, capture_output=True, text=True)\<close>
  can do: complete with a return code and the two captured streams, fail to find
  \<open>make\<close> (\<open>FileNotFoundError\<close>), or raise another exception.
\<close>

datatype make_result = Completed int string string | Make_missing | Make_exception string

record world =
  fs :: node
  stdin :: "string list"
  stdout :: "msg list"
  make_log :: "(path \<times> make_result) list"

datatype 'a res = Ret 'a | Raise py_error | Sys_exit int

type_synonym 'a prog = "world \<Rightarrow> 'a res \<times> world"

definition ret :: "'a \<Rightarrow> 'a prog" where
  "ret x = (\<lambda>w. (Ret x, w))"

definition sys_exit :: "int \<Rightarrow> 'a prog" where
  "sys_exit n = (\<lambda>w. (Sys_exit n, w))"

definition bind :: "'a prog \<Rightarrow> ('a \<Rightarrow> 'b prog) \<Rightarrow> 'b prog" where
  "bind m f = (\<lambda>w. case m w of
       (Ret x, w') \<Rightarrow> f x w'
     | (Raise e, w') \<Rightarrow> (Raise e, w')
     | (Sys_exit n, w') \<Rightarrow> (Sys_exit n, w'))"

definition seq :: "'a prog \<Rightarrow> 'b prog \<Rightarrow> 'b prog" where
  "seq m k = bind m (\<lambda>_. k)"

definition get_fs :: "node prog" where
  "get_fs = (\<lambda>w. (Ret (fs w), w))"

definition change_fs :: "(node \<Rightarrow> py_error + node) \<Rightarrow> unit prog" where
  "change_fs f = (\<lambda>w. case f (fs w) of Inl e \<Rightarrow> (Raise e, w) | Inr r \<Rightarrow> (Ret (), w\<lparr>fs := r\<rparr>))"

text \<open>A value that the surroundings give, or the exception they raise instead.\<close>

definition of_result :: "py_error + 'a \<Rightarrow> 'a prog" where
  "of_result v = (\<lambda>w. case v of Inl x \<Rightarrow> (Raise x, w) | Inr y \<Rightarrow> (Ret y, w))"

definition print :: "msg \<Rightarrow> unit prog" where
  "print m = (\<lambda>w. (Ret (), w\<lparr>stdout := stdout w @ [m]\<rparr>))"

definition prints :: "msg list \<Rightarrow> unit prog" where
  "prints ms = (\<lambda>w. (Ret (), w\<lparr>stdout := stdout w @ ms\<rparr>))"

definition input :: "msg \<Rightarrow> string prog" where
  "input prompt = (\<lambda>w. case stdin w of
       [] \<Rightarrow> (Raise EOFError, w\<lparr>stdout := stdout w @ [prompt]\<rparr>)
     | l # ls \<Rightarrow> (Ret l, w\<lparr>stdin := ls, stdout := stdout w @ [prompt]\<rparr>))"

text \<open>
  The exit code of the process: \<open>0\<close> when \<open>main\<close> returns, the argument of \<open>sys.exit\<close>,
  and \<open>1\<close> when an exception reaches the top.
\<close>

fun exit_code :: "'a res \<Rightarrow> int" where
  "exit_code (Ret x) = 0"
| "exit_code (Sys_exit n) = n"
| "exit_code (Raise e) = 1"

text \<open>Truth of an optional string in a condition: \<open>None\<close> and the empty string are false.\<close>

fun truthy :: "string option \<Rightarrow> bool" where
  "truthy None = False"
| "truthy (Some s) = (s \<noteq> [])"

subsection \<open>The parameters of a run\<close>

record args =
  report :: "string option"
  slide :: "string option"
  ppt_template :: "string option"
  target :: "string option"

text \<open>
  The command line: no argument at all, arguments that the parser refuses or answers by
  itself (an unknown option or key, \<open>--help\<close>; it ends the process with its own exit code),
  or arguments parsed into a namespace.
\<close>

datatype cli = No_args | Argparse_exit int | Parsed args

text \<open>
  \<open>default_target\<close> is what \<open>get_default_target_path()\<close> gives (lines 56 to 60): the path
  \<open>~/Downloads/template_project_TIMESTAMP\<close>, or the \<open>RuntimeError\<close> of \<open>Path.home()\<close> when
  there is no home directory. \<open>resolve_path s\<close> is what
  \<open>Path(s).expanduser().resolve()\<close> gives: a path, or the exception it raises (a
  \<open>RuntimeError\<close> for \<open>~user\<close> with an unknown user).
\<close>

record env =
  script_dir :: path
  cli :: cli
  default_target :: "py_error + path"
  resolve_path :: "string \<Rightarrow> py_error + path"
  make_tool :: "path \<Rightarrow> node \<Rightarrow> make_result \<times> node"

definition run_make :: "env \<Rightarrow> path \<Rightarrow> make_result prog" where
  "run_make e d = (\<lambda>w. let (r, root') = make_tool e d (fs w) in
     (Ret r, w\<lparr>fs := root', make_log := make_log w @ [(d, r)]\<rparr>))"

subsection \<open>The template registry\<close>

text \<open>
  The two dictionaries of the script, in their order. The display names are Chinese in
  the source and are given in English here; they are only printed. The build-directory
  hint \<open>makefile_path\<close> is a field of every descriptor.
\<close>

record template_info =
  name :: string
  path :: string
  has_makefile :: bool
  makefile_path :: "string option"

definition REPORT_TEMPLATES :: "(string \<times> template_info) list" where
  "REPORT_TEMPLATES =
     [(''latex_exp'', \<lparr>name = ''LaTeX paper template'', path = ''latex_exp'',
         has_makefile = True, makefile_path = None\<rparr>),
      (''markdown_template'', \<lparr>name = ''Markdown template'', path = ''markdown_template'',
         has_makefile = False, makefile_path = None\<rparr>)]"

definition SLIDE_TEMPLATES :: "(string \<times> template_info) list" where
  "SLIDE_TEMPLATES =
     [(''beamer'', \<lparr>name = ''Beamer LaTeX template'', path = ''beamer'',
         has_makefile = True, makefile_path = None\<rparr>),
      (''reveal-md'', \<lparr>name = ''reveal-md template'', path = ''reveal-md'',
         has_makefile = True, makefile_path = Some ''slide/src''\<rparr>),
      (''ppt'', \<lparr>name = ''PowerPoint template'', path = ''PPT/templates'',
         has_makefile = False, makefile_path = None\<rparr>)]"

text \<open>\<open>REPORT_TEMPLATES[key]\<close>: a key that is not in the dictionary raises \<open>KeyError\<close>.\<close>

definition lookup_template :: "(string \<times> template_info) list \<Rightarrow> string \<Rightarrow> template_info prog" where
  "lookup_template ts k =
     (case map_of ts k of None \<Rightarrow> (\<lambda>w. (Raise (KeyError k), w)) | Some t \<Rightarrow> ret t)"

text \<open>\<open>list_ppt_templates\<close> (lines 63 to 70).\<close>

definition list_ppt_templates :: "env \<Rightarrow> node \<Rightarrow> string list" where
  "list_ppt_templates e root =
     (let ppt_dir = script_dir e @ [''PPT'', ''templates''] in
      if \<not> exists root ppt_dir then [] else sort (glob root ppt_dir ''*.pptx''))"

subsection \<open>Interactive selection\<close>

text \<open>
  \<open>select_templates_interactive\<close> (lines 73 to 161), in the three parts its comments
  name: the report menu, the slide menu with the menu of PowerPoint files, and the
  target path.
\<close>

definition menu :: "(string \<times> template_info) list \<Rightarrow> msg list" where
  "menu ts = map (\<lambda>(i, key, t). Menu (Item i (name t) key)) (zip [1..<Suc (length ts)] ts)"

definition select_report :: "string option prog" where
  "select_report =
     seq (prints ([Menu Header_report, Menu Item_none] @ menu REPORT_TEMPLATES))
     (bind (input (Menu (Prompt_report (length REPORT_TEMPLATES)))) (\<lambda>report_choice.
        case py_int report_choice of
          None \<Rightarrow> seq (print (Menu Invalid_input_report)) (ret None)
        | Some report_idx \<Rightarrow>
            if report_idx = 0 then ret None
            else if 1 \<le> report_idx \<and> report_idx \<le> int (length REPORT_TEMPLATES)
            then ret (Some (map fst REPORT_TEMPLATES ! nat (report_idx - 1)))
            else seq (print (Menu Invalid_choice_report)) (ret None)))"

definition select_ppt_file :: "env \<Rightarrow> (string option \<times> string option) prog" where
  "select_ppt_file e =
     bind get_fs (\<lambda>root.
       let ppt_templates = list_ppt_templates e root in
       if ppt_templates = [] then seq (print (Run No_ppt_found)) (ret (None, None))
       else
         seq (prints (Menu Header_ppt
                # map (\<lambda>(i, f). Menu (Item_ppt i f))
                    (zip [1..<Suc (length ppt_templates)] ppt_templates)))
         (bind (input (Menu (Prompt_ppt (length ppt_templates)))) (\<lambda>ppt_choice.
            case py_int ppt_choice of
              None \<Rightarrow> seq (print (Menu Invalid_input)) (ret (None, None))
            | Some ppt_idx \<Rightarrow>
                if 1 \<le> ppt_idx \<and> ppt_idx \<le> int (length ppt_templates)
                then ret (Some ''ppt'', Some (ppt_templates ! nat (ppt_idx - 1)))
                else seq (print (Menu Invalid_choice)) (ret (None, None)))))"

definition select_slide :: "env \<Rightarrow> (string option \<times> string option) prog" where
  "select_slide e =
     seq (prints ([Menu Header_slide, Menu Item_none] @ menu SLIDE_TEMPLATES))
     (bind (input (Menu (Prompt_slide (length SLIDE_TEMPLATES)))) (\<lambda>slide_choice.
        case py_int slide_choice of
          None \<Rightarrow> seq (print (Menu Invalid_input_slide)) (ret (None, None))
        | Some slide_idx \<Rightarrow>
            if slide_idx = 0 then ret (None, None)
            else if 1 \<le> slide_idx \<and> slide_idx \<le> int (length SLIDE_TEMPLATES)
            then (let slide_key = map fst SLIDE_TEMPLATES ! nat (slide_idx - 1) in
                  if slide_key = ''ppt'' then select_ppt_file e
                  else ret (Some slide_key, None))
            else seq (print (Menu Invalid_choice_slide)) (ret (None, None))))"

definition select_target :: "env \<Rightarrow> path prog" where
  "select_target e =
     seq (print (Menu Header_target))
     (bind (of_result (default_target e)) (\<lambda>default_path.
      seq (print (Menu (Default_path default_path)))
     (bind (input (Menu Prompt_target)) (\<lambda>l.
        let target_input = strip l in
        if target_input \<noteq> [] then of_result (resolve_path e target_input)
        else ret default_path))))"

type_synonym selection = "string option \<times> string option \<times> string option \<times> path"

definition select_templates_interactive :: "env \<Rightarrow> selection prog" where
  "select_templates_interactive e =
     seq (prints [Run Rule_after_blank, Menu Title_select, Run Rule])
     (bind select_report (\<lambda>report_template.
      bind (select_slide e) (\<lambda>(slide_template, ppt_name).
      bind (select_target e) (\<lambda>target_path.
      ret (report_template, slide_template, ppt_name, target_path)))))"

subsection \<open>Copying a template\<close>

definition IGNORE_PATTERNS :: "string list" where
  "IGNORE_PATTERNS =
     [''*.aux'', ''*.log'', ''*.out'', ''*.toc'', ''*.synctex.gz'', ''*.bbl'', ''*.blg'',
      ''*.fls'', ''*.fdb_latexmk'', ''*.nav'', ''*.snm'', ''*.vrb'', ''*.pdf'',
      ''*.aux'', ''site'', ''__pycache__'', ''*.pyc'', ''.git'']"

definition ignored :: "string \<Rightarrow> bool" where
  "ignored n = list_ex (fnmatch n) IGNORE_PATTERNS"

text \<open>\<open>copy_template\<close> (lines 213 to 266).\<close>

definition copy_tree_to :: "string \<Rightarrow> path \<Rightarrow> path \<Rightarrow> bool prog" where
  "copy_tree_to template_key source_path target_template_path =
     seq (change_fs (\<lambda>root. copytree root source_path target_template_path ignored))
     (seq (print (Copying (Copied template_key target_template_path))) (ret True))"

definition copy_template ::
  "env \<Rightarrow> string \<Rightarrow> template_info \<Rightarrow> path \<Rightarrow> string option \<Rightarrow> bool \<Rightarrow> string option \<Rightarrow> bool prog"
where
  "copy_template e template_key template_info target_path template_type is_ppt ppt_filename =
     (let source_path = joinpath (script_dir e) (path template_info) in
      bind get_fs (\<lambda>root.
        if \<not> exists root source_path
        then seq (print (Copying (Err_source_missing source_path))) (ret False)
        else if is_ppt \<and> truthy ppt_filename
        then
          (let source_file = joinpath source_path (the ppt_filename) in
           if \<not> exists root source_file
           then seq (print (Copying (Err_ppt_missing source_file))) (ret False)
           else
             (let slide_dir = target_path @ [''slide''];
                  target_file = joinpath slide_dir (the ppt_filename)
              in seq (change_fs (\<lambda>root. mkdir_parents root slide_dir))
                 (seq (change_fs (\<lambda>root. copy2 root source_file target_file))
                 (seq (print (Copying (Copied_ppt (the ppt_filename) slide_dir)))
                 (ret True)))))
        else
          (let target_template_path =
                 (if template_type = Some ''report'' then target_path @ [''report'']
                  else if template_type = Some ''slide'' then target_path @ [''slide'']
                  else joinpath target_path template_key)
           in if exists root target_template_path
              then bind (input (Copying (Prompt_overwrite target_template_path))) (\<lambda>l.
                     let response = lower (strip l) in
                     if response \<noteq> ''y''
                     then seq (print (Copying Copy_cancelled)) (ret False)
                     else seq (change_fs (\<lambda>root. rmtree root target_template_path))
                          (copy_tree_to template_key source_path target_template_path))
              else copy_tree_to template_key source_path target_template_path)))"

subsection \<open>Locating the Makefile and building\<close>

text \<open>
  \<open>find_makefile\<close> (lines 269 to 292): its two loops are \<open>first_candidate\<close>, over the
  common subdirectories, and \<open>first_walked\<close>, over what \<open>os.walk\<close> yields. The depth of a
  walked directory is the number of separators in its path after the base path, which is
  the number of components below the base.
\<close>

definition common_subdirs :: "string list" where
  "common_subdirs = [''slide/src'', ''src'', ''slide'']"

fun first_candidate :: "node \<Rightarrow> path \<Rightarrow> string list \<Rightarrow> path option" where
  "first_candidate root base_path [] = None"
| "first_candidate root base_path (subdir # rest) =
     (let subdir_path = joinpath base_path subdir in
      if exists root (subdir_path @ [''Makefile'']) then Some subdir_path
      else first_candidate root base_path rest)"

fun first_walked :: "path \<Rightarrow> (path \<times> string list \<times> string list) list \<Rightarrow> path option" where
  "first_walked base_path [] = None"
| "first_walked base_path ((d, dirs, files) # rest) =
     (let depth = length (drop (length base_path) d) in
      if depth > 3 then first_walked base_path rest
      else if ''Makefile'' \<in> set files then Some d
      else first_walked base_path rest)"

definition find_makefile :: "node \<Rightarrow> path \<Rightarrow> path option" where
  "find_makefile root base_path =
     (if exists root (base_path @ [''Makefile'']) then Some base_path
      else (case first_candidate root base_path common_subdirs of
              Some d \<Rightarrow> Some d
            | None \<Rightarrow>
                (case lookup root base_path of
                   None \<Rightarrow> None
                 | Some n \<Rightarrow> first_walked base_path (os_walk base_path n))))"

text \<open>\<open>compile_template\<close> (lines 295 to 359).\<close>

definition report_build :: "string \<Rightarrow> make_result \<Rightarrow> bool prog" where
  "report_build template_key result =
     (case result of
        Completed returncode out err \<Rightarrow>
          if returncode = 0
          then seq (print (Building (Build_ok template_key))) (ret True)
          else seq (print (Building (Build_failed template_key)))
               (seq (if out \<noteq> [] then prints [Building Stdout_header, Building (Captured out)]
                     else ret ())
               (seq (if err \<noteq> [] then prints [Building Stderr_header, Building (Captured err)]
                     else ret ())
               (ret False)))
      | Make_missing \<Rightarrow> seq (print (Building Err_no_make)) (ret False)
      | Make_exception x \<Rightarrow> seq (print (Building (Err_build_exception x))) (ret False))"

definition compile_template ::
  "env \<Rightarrow> string \<Rightarrow> template_info \<Rightarrow> path \<Rightarrow> string option \<Rightarrow> bool prog"
where
  "compile_template e template_key template_info target_path template_type =
     (if \<not> has_makefile template_info
      then seq (print (Building (No_build_needed template_key))) (ret True)
      else if template_key = ''ppt'' then ret True
      else
        (let template_target_path =
               (if template_type = Some ''report'' then target_path @ [''report'']
                else if template_type = Some ''slide'' then target_path @ [''slide'']
                else joinpath target_path template_key)
         in bind get_fs (\<lambda>root.
              case find_makefile root template_target_path of
                None \<Rightarrow> seq (print (Building (Warn_no_makefile template_key))) (ret False)
              | Some makefile_dir \<Rightarrow>
                  seq (prints [Building (Found_makefile makefile_dir),
                               Building (Compiling template_key)])
                  (bind (run_make e makefile_dir) (report_build template_key)))))"

subsection \<open>The main function\<close>

text \<open>
  \<open>main\<close> (lines 362 to 468) runs its stages one after the other; each stage is a
  definition here, and \<open>main\<close> chains them. The four local variables of the selection
  travel as a tuple: the report key, the slide key, the PowerPoint file name and the
  target path.

  \<open>resolve_selection\<close> (lines 364 to 393): the check that the script stands in the
  template repository, then the selection, from the command line when there is any
  argument and from the console otherwise. In flag mode the target path is computed
  (\<open>target_of\<close>, lines 377 to 380) before the PowerPoint arguments are checked, so an
  exception of the former comes first.
\<close>

definition target_of :: "env \<Rightarrow> args \<Rightarrow> py_error + path" where
  "target_of e a =
     (if truthy (target a) then resolve_path e (the (target a)) else default_target e)"

definition resolve_selection :: "env \<Rightarrow> selection prog" where
  "resolve_selection e =
     bind get_fs (\<lambda>root.
       if \<not> exists root (script_dir e @ [''latex_exp''])
       then seq (print (Run Err_not_in_root)) (sys_exit 1)
       else
         (case cli e of
            No_args \<Rightarrow> select_templates_interactive e
          | Argparse_exit n \<Rightarrow> sys_exit n
          | Parsed a \<Rightarrow>
              (let report_template = report a;
                   slide_template = slide a;
                   ppt_name = ppt_template a
               in bind (of_result (target_of e a)) (\<lambda>target_path.
                  if slide_template = Some ''ppt'' \<and> \<not> truthy ppt_name
                  then
                    (let ppt_templates = list_ppt_templates e root in
                     if ppt_templates = [] then seq (print (Run No_ppt_found)) (sys_exit 1)
                     else seq (prints [Run Err_ppt_required, Run (Available_ppt ppt_templates)])
                          (sys_exit 1))
                  else ret (report_template, slide_template, ppt_name, target_path)))))"

text \<open>
  \<open>announce\<close> (lines 395 to 419): at least one template must be selected; the selection
  is printed; in interactive mode the user confirms.
\<close>

definition announce :: "env \<Rightarrow> selection \<Rightarrow> unit prog" where
  "announce e sel =
     (case sel of (report_template, slide_template, ppt_name, target_path) \<Rightarrow>
        if \<not> truthy report_template \<and> \<not> truthy slide_template
        then seq (print (Run Err_none_selected)) (sys_exit 1)
        else
          seq (prints [Run Rule_after_blank, Run Title_selected, Run Rule])
          (seq (if truthy report_template
                then bind (lookup_template REPORT_TEMPLATES (the report_template)) (\<lambda>t.
                       print (Run (Selected_report (name t))))
                else ret ())
          (seq (if truthy slide_template
                then bind (lookup_template SLIDE_TEMPLATES (the slide_template)) (\<lambda>t.
                       if slide_template = Some ''ppt''
                       then print (Run (Selected_slide_ppt (name t) ppt_name))
                       else print (Run (Selected_slide (name t))))
                else ret ())
          (seq (prints [Run (Selected_target target_path), Run Rule_then_blank])
               (if cli e = No_args
                then bind (input (Run Prompt_confirm)) (\<lambda>l.
                       let confirm = lower (strip l) in
                       if confirm = ''n'' then seq (print (Run Cancelled)) (sys_exit 0)
                       else ret ())
                else ret ())))))"

text \<open>
  \<open>copy_stage\<close> (lines 424 to 436): the report template, then the slide template; the
  result is the variable \<open>success\<close>.
\<close>

definition copy_stage :: "env \<Rightarrow> selection \<Rightarrow> bool prog" where
  "copy_stage e sel =
     (case sel of (report_template, slide_template, ppt_name, target_path) \<Rightarrow>
        bind (if truthy report_template
              then bind (lookup_template REPORT_TEMPLATES (the report_template)) (\<lambda>template_info.
                     copy_template e (the report_template) template_info target_path
                       (Some ''report'') False None)
              else ret True) (\<lambda>report_copied.
        bind (if truthy slide_template
              then bind (lookup_template SLIDE_TEMPLATES (the slide_template)) (\<lambda>template_info.
                     let is_ppt = (slide_template = Some ''ppt'') in
                     copy_template e (the slide_template) template_info target_path
                       (Some ''slide'') is_ppt ppt_name)
              else ret True) (\<lambda>slide_copied.
        ret (report_copied \<and> slide_copied))))"

text \<open>
  \<open>compile_stage\<close> (lines 447 to 457): the report template, then the slide template
  unless it is the PowerPoint one; the result is the variable \<open>compile_success\<close>.
\<close>

definition compile_stage :: "env \<Rightarrow> selection \<Rightarrow> bool prog" where
  "compile_stage e sel =
     (case sel of (report_template, slide_template, ppt_name, target_path) \<Rightarrow>
        bind (if truthy report_template
              then bind (lookup_template REPORT_TEMPLATES (the report_template)) (\<lambda>template_info.
                     compile_template e (the report_template) template_info target_path
                       (Some ''report''))
              else ret True) (\<lambda>report_built.
        bind (if truthy slide_template \<and> slide_template \<noteq> Some ''ppt''
              then bind (lookup_template SLIDE_TEMPLATES (the slide_template)) (\<lambda>template_info.
                     compile_template e (the slide_template) template_info target_path
                       (Some ''slide''))
              else ret True) (\<lambda>slide_built.
        ret (report_built \<and> slide_built))))"

text \<open>
  \<open>finish\<close> (lines 438 to 468): what follows the copies. A failed copy ends the process
  with \<open>sys.exit(1)\<close>; otherwise the templates are built and the summary is printed, and
  \<open>main\<close> returns.
\<close>

definition finish :: "env \<Rightarrow> selection \<Rightarrow> bool \<Rightarrow> unit prog" where
  "finish e sel success =
     (if \<not> success then seq (print (Run Err_copy)) (sys_exit 1)
      else
        seq (prints [Run Rule_after_blank, Run Title_compile, Run Rule_then_blank])
        (bind (compile_stage e sel) (\<lambda>compile_success.
           prints [Run Rule_after_blank, Run Title_done, Run Rule,
                   Run (Copied_to (snd (snd (snd sel)))),
                   Run (if compile_success then All_built else Some_build_failed),
                   Run Rule_then_blank])))"

text \<open>
  \<open>prepare\<close> (lines 364 to 422): everything before the copies, up to the creation of the
  target directory. It returns the selection.
\<close>

definition prepare :: "env \<Rightarrow> selection prog" where
  "prepare e =
     bind (resolve_selection e) (\<lambda>sel.
       seq (announce e sel)
       (seq (change_fs (\<lambda>root. mkdir_parents root (snd (snd (snd sel)))))
       (ret sel)))"

definition main :: "env \<Rightarrow> unit prog" where
  "main e = bind (prepare e) (\<lambda>sel. bind (copy_stage e sel) (finish e sel))"

text \<open>
  The lines a run has printed are what \<open>stdout\<close> holds beyond what it held before. The
  summary of a run that reaches its end is the line before the closing rule.
\<close>

definition printed :: "world \<Rightarrow> world \<Rightarrow> msg list" where
  "printed w w' = drop (length (stdout w)) (stdout w')"

definition summary_line :: "world \<Rightarrow> msg" where
  "summary_line w = last (butlast (stdout w))"

fun returned_zero :: "make_result \<Rightarrow> bool" where
  "returned_zero (Completed returncode out err) = (returncode = 0)"
| "returned_zero Make_missing = False"
| "returned_zero (Make_exception x) = False"

subsection \<open>What a computation leaves unchanged\<close>

text \<open>
  Two properties of computations used in the proofs: \<open>keeps g m\<close> says that \<open>m\<close> never
  changes the component \<open>g\<close> of the world, and \<open>no_exit m\<close> that \<open>m\<close> never ends the process
  by \<open>sys.exit\<close>.
\<close>

definition keeps :: "(world \<Rightarrow> 'b) \<Rightarrow> 'a prog \<Rightarrow> bool" where
  "keeps g m = (\<forall>w. g (snd (m w)) = g w)"

definition no_exit :: "'a prog \<Rightarrow> bool" where
  "no_exit m = (\<forall>w. \<forall>n. fst (m w) \<noteq> Sys_exit n)"

subsection \<open>Example runs\<close>

text \<open>
  A small template repository at \<open>/repo\<close>, an empty \<open>/tmp\<close>, a \<open>make\<close> that succeeds and one
  that fails, and the command line \<open>--report latex_exp --slide beamer --target /tmp/proj\<close>.
  Absolute paths resolve to themselves, and no user is known, so that a path starting
  with \<open>~\<close> raises \<open>RuntimeError\<close>.
  In the second file system \<open>/tmp/proj/report\<close> is there already. The theorems are
  instantiated on these.
\<close>

definition ex_repo :: node where
  "ex_repo = Dir
     [(''latex_exp'', Dir [(''main.tex'', File ''report''), (''Makefile'', File ''all:''),
        (''main.aux'', File ''aux''), (''.git'', Dir [(''HEAD'', File ''ref'')])]),
      (''markdown_template'', Dir [(''README.md'', File ''md'')]),
      (''beamer'', Dir [(''slides.tex'', File ''slides''), (''Makefile'', File ''all:'')]),
      (''reveal-md'', Dir [(''slide'', Dir [(''src'', Dir [(''Makefile'', File ''all:'')])])]),
      (''PPT'', Dir [(''templates'', Dir [(''b.pptx'', File ''b''), (''notes.txt'', File ''n''),
        (''a.pptx'', File ''a'')])])]"

definition ex_fs :: node where
  "ex_fs = Dir [(''repo'', ex_repo), (''tmp'', Dir [])]"

definition make_fails :: "path \<Rightarrow> node \<Rightarrow> make_result \<times> node" where
  "make_fails d root = (Completed 2 [] ''make: Error 2'', root)"

definition make_ok :: "path \<Rightarrow> node \<Rightarrow> make_result \<times> node" where
  "make_ok d root = (Completed 0 ''built'' [], root)"

definition ex_resolve :: "string \<Rightarrow> py_error + path" where
  "ex_resolve s = (if s \<noteq> [] \<and> hd s = CHR ''~'' then Inl RuntimeError else Inr (parts s))"

definition ex_env :: "(path \<Rightarrow> node \<Rightarrow> make_result \<times> node) \<Rightarrow> cli \<Rightarrow> env" where
  "ex_env mk c = \<lparr>script_dir = [''repo''], cli = c,
     default_target = Inr [''home'', ''Downloads'', ''template_project_20261104_120000''],
     resolve_path = ex_resolve, make_tool = mk\<rparr>"

definition ex_world :: "string list \<Rightarrow> world" where
  "ex_world lines = \<lparr>fs = ex_fs, stdin = lines, stdout = [], make_log = []\<rparr>"

definition ex_flags :: args where
  "ex_flags = \<lparr>report = Some ''latex_exp'', slide = Some ''beamer'', ppt_template = None,
     target = Some ''/tmp/proj''\<rparr>"

definition ex_fs_old :: node where
  "ex_fs_old = Dir [(''repo'', ex_repo),
     (''tmp'', Dir [(''proj'', Dir [(''report'', Dir [(''old.txt'', File ''old'')])])])]"

definition ex_world_old :: "string list \<Rightarrow> world" where
  "ex_world_old lines = \<lparr>fs = ex_fs_old, stdin = lines, stdout = [], make_log = []\<rparr>"

subsection \<open>The locator as the specification words it\<close>

text \<open>
  The specification describes the third step of the locator as a breadth-first search
  bounded to three levels. \<open>find_makefile_breadth_first\<close> follows these words, to be
  compared with \<open>find_makefile\<close>: the directories of the tree are taken level by level
  (\<open>dirs_at k\<close> lists those \<open>k\<close> levels below the base, in the order of the listings),
  from the base itself down to the third level, and the first one that contains a
  \<open>Makefile\<close> is returned.
\<close>

fun dirs_at :: "nat \<Rightarrow> path \<Rightarrow> node \<Rightarrow> (path \<times> node) list" where
  "dirs_at k d (File c) = []"
| "dirs_at 0 d (Dir es) = [(d, Dir es)]"
| "dirs_at (Suc k) d (Dir es) = concat (map (\<lambda>e. dirs_at k (d @ [fst e]) (snd e)) es)"

definition contains_makefile :: "node \<Rightarrow> bool" where
  "contains_makefile n = (lookup n [''Makefile''] \<noteq> None)"

definition find_makefile_breadth_first :: "node \<Rightarrow> path \<Rightarrow> path option" where
  "find_makefile_breadth_first root base_path =
     (if exists root (base_path @ [''Makefile'']) then Some base_path
      else (case find (\<lambda>s. exists root (joinpath base_path s @ [''Makefile''])) common_subdirs of
              Some s \<Rightarrow> Some (joinpath base_path s)
            | None \<Rightarrow>
                (case lookup root base_path of
                   None \<Rightarrow> None
                 | Some n \<Rightarrow>
                     map_option fst (find (\<lambda>x. contains_makefile (snd x))
                       (concat (map (\<lambda>k. dirs_at k base_path n) [0, 1, 2, 3]))))))"

subsection \<open>Example trees\<close>

text \<open>
  A slide tree with a \<open>Makefile\<close> two levels down in its first directory and one level
  down in its second; a slide tree whose only \<open>Makefile\<close> is four levels down; and a
  repository whose report template has a directory \<open>report\<close> of its own, with the
  command line \<open>--report latex_exp --target /repo/latex_exp\<close>.
\<close>

definition ex_nested :: node where
  "ex_nested = Dir [(''slide'', Dir
     [(''docs'', Dir [(''figures'', Dir [(''Makefile'', File ''all:'')])]),
      (''talk'', Dir [(''Makefile'', File ''all:'')])])]"

definition ex_deep :: node where
  "ex_deep = Dir [(''slide'', Dir [(''l1'', Dir [(''l2'', Dir [(''l3'', Dir
     [(''notes.txt'', File ''n''), (''l4'', Dir [(''Makefile'', File ''all:'')])])])])])]"

definition ex_fs_self :: node where
  "ex_fs_self = Dir [(''repo'', Dir [(''latex_exp'', Dir
     [(''main.tex'', File ''report''), (''Makefile'', File ''all:''),
      (''report'', Dir [(''old.txt'', File ''old'')])])])]"

definition ex_flags_self :: args where
  "ex_flags_self = \<lparr>report = Some ''latex_exp'', slide = None, ppt_template = None,
     target = Some ''/repo/latex_exp''\<rparr>"

section \<open>Properties\<close>

subsection \<open>Running a computation\<close>

lemma ret_apply: "ret x w = (Ret x, w)"
  by (simp add: ret_def)

lemma sys_exit_apply: "sys_exit n w = (Sys_exit n, w)"
  by (simp add: sys_exit_def)

lemma bind_apply:
  "bind m f w = (case m w of (Ret x, w') \<Rightarrow> f x w' | (Raise e, w') \<Rightarrow> (Raise e, w')
     | (Sys_exit n, w') \<Rightarrow> (Sys_exit n, w'))"
  by (simp add: bind_def)

lemma bind_Ret: "m w = (Ret x, w') \<Longrightarrow> bind m f w = f x w'"
  by (simp add: bind_def)

lemma bind_Raise: "m w = (Raise x, w') \<Longrightarrow> bind m f w = (Raise x, w')"
  by (simp add: bind_def)

lemma bind_Sys_exit: "m w = (Sys_exit n, w') \<Longrightarrow> bind m f w = (Sys_exit n, w')"
  by (simp add: bind_def)

lemma seq_apply:
  "seq m k w = (case m w of (Ret x, w') \<Rightarrow> k w' | (Raise e, w') \<Rightarrow> (Raise e, w')
     | (Sys_exit n, w') \<Rightarrow> (Sys_exit n, w'))"
  by (simp add: seq_def bind_def)

lemma print_apply: "print m w = (Ret (), w\<lparr>stdout := stdout w @ [m]\<rparr>)"
  by (simp add: print_def)

lemma prints_apply: "prints ms w = (Ret (), w\<lparr>stdout := stdout w @ ms\<rparr>)"
  by (simp add: prints_def)

lemma get_fs_apply: "get_fs w = (Ret (fs w), w)"
  by (simp add: get_fs_def)

lemma of_result_apply:
  "of_result v w = (case v of Inl x \<Rightarrow> (Raise x, w) | Inr y \<Rightarrow> (Ret y, w))"
  by (simp add: of_result_def)

lemma pair_fst_snd: "fst x = a \<Longrightarrow> x = (a, snd x)"
  by (cases x) simp

lemmas run_simps = ret_apply sys_exit_apply bind_apply seq_apply print_apply prints_apply
  get_fs_apply of_result_apply

subsection \<open>The stages before the builds never run \<open>make\<close>\<close>

lemma keeps_ret: "keeps g (ret x)"
  by (simp add: keeps_def ret_def)

lemma keeps_sys_exit: "keeps g (sys_exit n)"
  by (simp add: keeps_def sys_exit_def)

lemma keeps_bind: "keeps g m \<Longrightarrow> (\<And>x. keeps g (f x)) \<Longrightarrow> keeps g (bind m f)"
  unfolding keeps_def bind_def
  by (auto split: prod.splits res.splits) (metis snd_conv)+

lemma keeps_seq: "keeps g m \<Longrightarrow> keeps g k \<Longrightarrow> keeps g (seq m k)"
  by (simp add: seq_def keeps_bind)

lemma keeps_if: "keeps g a \<Longrightarrow> keeps g b \<Longrightarrow> keeps g (if c then a else b)"
  by simp

lemma keeps_get_fs: "keeps g get_fs"
  by (simp add: keeps_def get_fs_def)

lemma keeps_of_result: "keeps g (of_result v)"
  by (cases v) (simp_all add: keeps_def of_result_def)

lemma keeps_log_print: "keeps make_log (print m)" "keeps make_log (prints ms)"
  "keeps make_log (input m)" "keeps make_log (change_fs f)"
  "keeps make_log (lookup_template ts k)"
  by (auto simp: keeps_def print_def prints_def input_def change_fs_def lookup_template_def
      ret_def split: list.splits sum.splits option.splits)

lemma keeps_fs_print: "keeps fs (print m)" "keeps fs (prints ms)" "keeps fs (input m)"
  "keeps fs (lookup_template ts k)"
  by (auto simp: keeps_def print_def prints_def input_def lookup_template_def
      ret_def split: list.splits sum.splits option.splits)

lemmas keeps_intros = keeps_ret keeps_sys_exit keeps_bind keeps_seq keeps_if keeps_get_fs
  keeps_of_result

lemma keeps_log_copy_template:
  "keeps make_log (copy_template e k t tp ty ip pf)"
  unfolding copy_template_def copy_tree_to_def Let_def
  by (intro keeps_intros keeps_log_print allI)

lemma keeps_log_copy_stage: "keeps make_log (copy_stage e sel)"
  unfolding copy_stage_def Let_def
  by (cases sel) (auto intro!: keeps_intros keeps_log_print keeps_log_copy_template)

lemma keeps_case_option:
  "keeps g a \<Longrightarrow> (\<And>x. keeps g (b x)) \<Longrightarrow> keeps g (case v of None \<Rightarrow> a | Some x \<Rightarrow> b x)"
  by (cases v) simp_all

lemma keeps_case_prod: "(\<And>x y. keeps g (f x y)) \<Longrightarrow> keeps g (case v of (x, y) \<Rightarrow> f x y)"
  by (cases v) simp

lemma keeps_select_report: "keeps make_log select_report" "keeps fs select_report"
  unfolding select_report_def
  by (intro keeps_intros keeps_log_print keeps_fs_print keeps_case_option)+

lemma keeps_select_ppt_file: "keeps make_log (select_ppt_file e)" "keeps fs (select_ppt_file e)"
  unfolding select_ppt_file_def Let_def
  by (intro keeps_intros keeps_log_print keeps_fs_print keeps_case_option)+

lemma keeps_select_slide: "keeps make_log (select_slide e)" "keeps fs (select_slide e)"
  unfolding select_slide_def Let_def
  by (intro keeps_intros keeps_log_print keeps_fs_print keeps_case_option keeps_select_ppt_file)+

lemma keeps_select_target: "keeps make_log (select_target e)" "keeps fs (select_target e)"
  unfolding select_target_def Let_def
  by (intro keeps_intros keeps_log_print keeps_fs_print)+

lemma keeps_select_templates_interactive:
  "keeps make_log (select_templates_interactive e)" "keeps fs (select_templates_interactive e)"
  unfolding select_templates_interactive_def
  by (intro keeps_intros keeps_log_print keeps_fs_print keeps_case_prod keeps_select_report
      keeps_select_slide keeps_select_target)+

lemma keeps_case_cli:
  "keeps g a \<Longrightarrow> (\<And>n. keeps g (b n)) \<Longrightarrow> (\<And>x. keeps g (c x)) \<Longrightarrow>
   keeps g (case v of No_args \<Rightarrow> a | Argparse_exit n \<Rightarrow> b n | Parsed x \<Rightarrow> c x)"
  by (cases v) simp_all

lemma keeps_resolve_selection:
  "keeps make_log (resolve_selection e)" "keeps fs (resolve_selection e)"
  unfolding resolve_selection_def Let_def
  by (intro keeps_intros keeps_log_print keeps_fs_print keeps_case_cli
      keeps_select_templates_interactive)+

lemma keeps_announce: "keeps make_log (announce e sel)" "keeps fs (announce e sel)"
  unfolding announce_def Let_def
  by (intro keeps_intros keeps_log_print keeps_fs_print keeps_case_prod)+

lemma keeps_log_prepare: "keeps make_log (prepare e)"
  unfolding prepare_def
  by (intro keeps_intros keeps_log_print keeps_resolve_selection keeps_announce)

lemma no_exit_ret: "no_exit (ret x)"
  by (simp add: no_exit_def ret_def)

lemma no_exit_bind: "no_exit m \<Longrightarrow> (\<And>x. no_exit (f x)) \<Longrightarrow> no_exit (bind m f)"
  unfolding no_exit_def bind_def
  by (auto split: prod.splits res.splits) (metis fst_conv)+

lemma no_exit_seq: "no_exit m \<Longrightarrow> no_exit k \<Longrightarrow> no_exit (seq m k)"
  by (simp add: seq_def no_exit_bind)

lemma no_exit_if: "no_exit a \<Longrightarrow> no_exit b \<Longrightarrow> no_exit (if c then a else b)"
  by simp

lemma no_exit_basic: "no_exit (print m)" "no_exit (prints ms)" "no_exit (input m)"
  "no_exit (change_fs f)" "no_exit (lookup_template ts k)" "no_exit get_fs"
  by (auto simp: no_exit_def print_def prints_def input_def change_fs_def lookup_template_def
      ret_def get_fs_def split: list.splits sum.splits option.splits)

lemmas no_exit_intros = no_exit_ret no_exit_bind no_exit_seq no_exit_if no_exit_basic

lemma no_exit_copy_template: "no_exit (copy_template e k t tp ty ip pf)"
  unfolding copy_template_def copy_tree_to_def Let_def
  by (intro no_exit_intros allI)

lemma no_exit_copy_stage: "no_exit (copy_stage e sel)"
  unfolding copy_stage_def Let_def
  by (cases sel) (auto intro!: no_exit_intros no_exit_copy_template)

subsection \<open>Name matching and the PowerPoint files\<close>

lemma fnmatch_literal:
  "CHR ''*'' \<notin> set lit \<Longrightarrow> CHR ''?'' \<notin> set lit \<Longrightarrow> fnmatch n lit = (n = lit)"
  by (induction n lit rule: fnmatch.induct) auto

lemma fnmatch_star_literal:
  "CHR ''*'' \<notin> set lit \<Longrightarrow> CHR ''?'' \<notin> set lit \<Longrightarrow>
   fnmatch n (CHR ''*'' # lit) = suffix lit n"
proof (induction n)
  case Nil
  then show ?case by (cases lit) (auto simp: fnmatch_literal)
next
  case (Cons c cs)
  then show ?case by (auto simp: fnmatch_literal suffix_Cons)
qed

lemma glob_pptx: "fnmatch n ''*.pptx'' = suffix ''.pptx'' n"
  using fnmatch_star_literal [of "''.pptx''" n] by simp

text \<open>
  Claim C8. \<open>list_ppt_templates\<close> looks into the directory \<open>PPT/templates\<close> beside the
  script, takes the entries whose name ends in \<open>.pptx\<close>, and returns their names sorted;
  when that directory is absent (or is not a directory) it returns the empty list.
\<close>

theorem list_ppt_templates_sorted:
  "sorted (list_ppt_templates e root)
   \<and> (case lookup root (script_dir e @ [''PPT'', ''templates'']) of
        Some (Dir es) \<Rightarrow>
          list_ppt_templates e root = sort (filter (suffix ''.pptx'') (map fst es))
      | Some (File c) \<Rightarrow> list_ppt_templates e root = []
      | None \<Rightarrow> list_ppt_templates e root = [])
   \<and> (\<not> exists root (script_dir e @ [''PPT'', ''templates'']) \<longrightarrow> list_ppt_templates e root = [])"
  by (auto simp: list_ppt_templates_def glob_def exists_def glob_pptx Let_def
      split: option.splits node.splits)

theorem list_ppt_templates_sorted_witness:
  "\<not> exists ex_fs ([''tmp''] @ [''PPT'', ''templates''])
   \<and> list_ppt_templates (ex_env make_ok No_args \<lparr>script_dir := [''tmp'']\<rparr>) ex_fs = []
   \<and> list_ppt_templates (ex_env make_ok No_args) ex_fs = [''a.pptx'', ''b.pptx'']"
proof -
  have h: "\<not> exists ex_fs (script_dir (ex_env make_ok No_args \<lparr>script_dir := [''tmp'']\<rparr>) @ [''PPT'', ''templates''])"
    by code_simp
  have l: "lookup ex_fs (script_dir (ex_env make_ok No_args) @ [''PPT'', ''templates'']) =
      Some (Dir [(''b.pptx'', File ''b''), (''notes.txt'', File ''n''), (''a.pptx'', File ''a'')])"
    by code_simp
  have s: "sort (filter (suffix ''.pptx'') (map fst
      [(''b.pptx'', File ''b''), (''notes.txt'', File ''n''), (''a.pptx'', File ''a'')])) = [''a.pptx'', ''b.pptx'']"
    by code_simp
  from list_ppt_templates_sorted [of "ex_env make_ok No_args \<lparr>script_dir := [''tmp'']\<rparr>" ex_fs] h
  have "list_ppt_templates (ex_env make_ok No_args \<lparr>script_dir := [''tmp'']\<rparr>) ex_fs = []"
    by blast
  moreover from list_ppt_templates_sorted [of "ex_env make_ok No_args" ex_fs] l s
  have "list_ppt_templates (ex_env make_ok No_args) ex_fs = [''a.pptx'', ''b.pptx'']"
    by simp
  moreover from h have "\<not> exists ex_fs ([''tmp''] @ [''PPT'', ''templates''])"
    by (simp add: ex_env_def)
  ultimately show ?thesis by blast
qed

subsection \<open>Selection\<close>

lemma input_apply:
  "input m w = (case stdin w of [] \<Rightarrow> (Raise EOFError, w\<lparr>stdout := stdout w @ [m]\<rparr>)
     | l # ls \<Rightarrow> (Ret l, w\<lparr>stdin := ls, stdout := stdout w @ [m]\<rparr>))"
  by (simp add: input_def)

text \<open>
  Claim C5, as amended. In flag mode, when the slide key is \<open>ppt\<close> and no PowerPoint file
  name is given (it is missing or empty), the process ends with exit code \<open>1\<close>. When
  the script stands in the template repository (the check that comes before the command
  line is read) and the target path can be computed (it is computed before the
  PowerPoint arguments are checked), the error it prints lists all the \<open>.pptx\<close> files
  found: the two lines are the error and the list or, when no file is found, the one
  line that says so.
\<close>

theorem ppt_without_filename:
  assumes "cli e = Parsed a" and "slide a = Some ''ppt''" and "\<not> truthy (ppt_template a)"
  shows "exit_code (fst (main e w)) = 1
       \<and> (exists (fs w) (script_dir e @ [''latex_exp'']) \<and> target_of e a = Inr t \<longrightarrow>
            main e w =
              (Sys_exit 1,
               w\<lparr>stdout := stdout w @
                   (if list_ppt_templates e (fs w) = [] then [Run No_ppt_found]
                    else [Run Err_ppt_required,
                          Run (Available_ppt (list_ppt_templates e (fs w)))])\<rparr>))"
proof (cases "target_of e a")
  case (Inl x)
  with assms show ?thesis
    by (simp add: main_def prepare_def resolve_selection_def run_simps Let_def)
next
  case (Inr u)
  with assms show ?thesis
    by (simp add: main_def prepare_def resolve_selection_def run_simps Let_def)
qed

theorem ppt_without_filename_witness:
  "fst (main (ex_env make_ok (Parsed (ex_flags\<lparr>slide := Some ''ppt''\<rparr>))) (ex_world [])) = Sys_exit 1
   \<and> stdout (snd (main (ex_env make_ok (Parsed (ex_flags\<lparr>slide := Some ''ppt''\<rparr>))) (ex_world [])))
       = [Run Err_ppt_required, Run (Available_ppt [''a.pptx'', ''b.pptx''])]"
proof -
  let ?a = "ex_flags\<lparr>slide := Some ''ppt''\<rparr>"
  let ?e = "ex_env make_ok (Parsed ?a)"
  have h1: "exists (fs (ex_world [])) (script_dir ?e @ [''latex_exp''])
      \<and> target_of ?e ?a = Inr [''tmp'', ''proj'']" by code_simp
  have h2: "cli ?e = Parsed ?a" by (simp add: ex_env_def)
  have h3: "slide ?a = Some ''ppt''" by simp
  have h4: "\<not> truthy (ppt_template ?a)" by (simp add: ex_flags_def)
  have v: "list_ppt_templates ?e (fs (ex_world [])) = [''a.pptx'', ''b.pptx'']" by code_simp
  from ppt_without_filename [OF h2 h3 h4, of "ex_world []" "[''tmp'', ''proj'']"] h1 v
  show ?thesis
    by (simp add: ex_world_def)
qed

text \<open>
  The claim C5 as stated has the list printed on every such invocation. With the target
  \<open>~nosuchuser/x\<close>, whose user is unknown, the path raises \<open>RuntimeError\<close> at line 378,
  before the PowerPoint arguments are looked at: the process ends with the exception
  (exit code \<open>1\<close>) and has printed nothing, although there are two \<open>.pptx\<close> files.
\<close>

theorem ppt_list_counterexample:
  "slide (ex_flags\<lparr>slide := Some ''ppt'', target := Some ''~nosuchuser/x''\<rparr>) = Some ''ppt''
   \<and> ppt_template (ex_flags\<lparr>slide := Some ''ppt'', target := Some ''~nosuchuser/x''\<rparr>) = None
   \<and> list_ppt_templates
        (ex_env make_ok (Parsed (ex_flags\<lparr>slide := Some ''ppt'', target := Some ''~nosuchuser/x''\<rparr>)))
        ex_fs = [''a.pptx'', ''b.pptx'']
   \<and> main (ex_env make_ok (Parsed (ex_flags\<lparr>slide := Some ''ppt'', target := Some ''~nosuchuser/x''\<rparr>)))
        (ex_world []) = (Raise RuntimeError, ex_world [])
   \<and> exit_code (Raise RuntimeError :: unit res) = 1
   \<and> stdout (ex_world []) = []"
  by code_simp

text \<open>
  Claim C6. In both modes, when the selection returns neither a report nor a slide
  template, the process ends with exit code \<open>1\<close> after the error line, and the file
  system is as it was before the run (so the target directory has not been created);
  \<open>make\<close> has not run either.
\<close>

theorem nothing_selected:
  assumes "resolve_selection e w = (Ret (r, s, p, t), w1)"
    and "\<not> truthy r" and "\<not> truthy s"
  shows "main e w = (Sys_exit 1, w1\<lparr>stdout := stdout w1 @ [Run Err_none_selected]\<rparr>)
         \<and> exit_code (fst (main e w)) \<noteq> 0
         \<and> fs (snd (main e w)) = fs w
         \<and> make_log (snd (main e w)) = make_log w"
proof -
  have run: "main e w = (Sys_exit 1, w1\<lparr>stdout := stdout w1 @ [Run Err_none_selected]\<rparr>)"
    using assms by (simp add: main_def prepare_def announce_def run_simps)
  have "fs w1 = fs w" "make_log w1 = make_log w"
    using keeps_resolve_selection [of e] assms(1) by (auto simp: keeps_def dest: spec [of _ w])
  with run show ?thesis by simp
qed

theorem nothing_selected_witness:
  "exit_code (fst (main (ex_env make_ok No_args) (ex_world [''0'', ''0'', '''']))) = 1
   \<and> last (stdout (snd (main (ex_env make_ok No_args) (ex_world [''0'', ''0'', ''''])))) = Run Err_none_selected
   \<and> fs (snd (main (ex_env make_ok No_args) (ex_world [''0'', ''0'', '''']))) = ex_fs
   \<and> exit_code (fst (main (ex_env make_ok (Parsed (ex_flags\<lparr>report := None, slide := None\<rparr>))) (ex_world []))) = 1
   \<and> fs (snd (main (ex_env make_ok (Parsed (ex_flags\<lparr>report := None, slide := None\<rparr>))) (ex_world []))) = ex_fs"
proof -
  let ?e = "ex_env make_ok No_args" and ?w = "ex_world [''0'', ''0'', '''']"
  let ?t = "[''home'', ''Downloads'', ''template_project_20261104_120000'']"
  have "fst (resolve_selection ?e ?w) = Ret (None, None, None, ?t)" by code_simp
  then have h: "resolve_selection ?e ?w = (Ret (None, None, None, ?t), snd (resolve_selection ?e ?w))"
    by (rule pair_fst_snd)
  let ?e' = "ex_env make_ok (Parsed (ex_flags\<lparr>report := None, slide := None\<rparr>))" and ?w' = "ex_world []"
  have "fst (resolve_selection ?e' ?w') = Ret (None, None, None, [''tmp'', ''proj''])" by code_simp
  then have h': "resolve_selection ?e' ?w' = (Ret (None, None, None, [''tmp'', ''proj'']), snd (resolve_selection ?e' ?w'))"
    by (rule pair_fst_snd)
  have n: "\<not> truthy None" by simp
  note t = nothing_selected [OF h n n] and t' = nothing_selected [OF h' n n]
  have "exit_code (fst (main ?e ?w)) = 1"
    and "last (stdout (snd (main ?e ?w))) = Run Err_none_selected"
    and "exit_code (fst (main ?e' ?w')) = 1"
    using t [THEN conjunct1] t' [THEN conjunct1] by simp_all
  moreover have "fs (snd (main ?e ?w)) = fs ?w" and "fs (snd (main ?e' ?w')) = fs ?w'"
    using t t' by blast+
  moreover have "fs ?w = ex_fs" and "fs ?w' = ex_fs"
    by (simp_all add: ex_world_def)
  ultimately show ?thesis by simp
qed

lemma select_report_valid:
  assumes "select_report w = (Ret r, w')"
  shows "r = None \<or> r = Some ''latex_exp'' \<or> r = Some ''markdown_template''"
proof -
  have two: "\<And>i::int. 1 \<le> i \<Longrightarrow> i \<le> 2 \<Longrightarrow> i = 1 \<or> i = 2" by arith
  show ?thesis
    using assms
    by (auto simp: select_report_def run_simps input_apply REPORT_TEMPLATES_def
        split: list.splits option.splits if_splits dest!: two)
qed

lemma select_slide_valid:
  assumes "select_slide e w = (Ret (s, p), w')"
  shows "s = None \<or> s = Some ''beamer'' \<or> s = Some ''reveal-md'' \<or> s = Some ''ppt''"
proof -
  have three: "\<And>i::int. 1 \<le> i \<Longrightarrow> i \<le> 3 \<Longrightarrow> i = 1 \<or> i = 2 \<or> i = 3" by arith
  show ?thesis
    using assms
    by (auto simp: select_slide_def select_ppt_file_def run_simps input_apply SLIDE_TEMPLATES_def
        Let_def split: list.splits option.splits if_splits dest!: three)
qed

lemma interactive_selection_valid:
  assumes "cli e = No_args" and "resolve_selection e w = (Ret (r, s, p, t), w1)"
  shows "(r = None \<or> r = Some ''latex_exp'' \<or> r = Some ''markdown_template'')
       \<and> (s = None \<or> s = Some ''beamer'' \<or> s = Some ''reveal-md'' \<or> s = Some ''ppt'')"
proof -
  from assms have sel: "select_templates_interactive e w = (Ret (r, s, p, t), w1)"
    by (auto simp: resolve_selection_def run_simps split: if_splits)
  then obtain wa wb wc where "select_report wa = (Ret r, wb)" "select_slide e wb = (Ret (s, p), wc)"
    by (auto simp: select_templates_interactive_def run_simps split: prod.splits res.splits)
  then show ?thesis
    using select_report_valid select_slide_valid by blast
qed

lemma change_fs_apply:
  "change_fs f w = (case f (fs w) of Inl x \<Rightarrow> (Raise x, w) | Inr r \<Rightarrow> (Ret (), w\<lparr>fs := r\<rparr>))"
  by (simp add: change_fs_def)

lemma lookup_template_apply:
  "lookup_template ts k w = (case map_of ts k of None \<Rightarrow> (Raise (KeyError k), w) | Some t \<Rightarrow> (Ret t, w))"
  by (simp add: lookup_template_def ret_def split: option.splits)

lemma lookup_report_keys:
  "lookup_template REPORT_TEMPLATES ''latex_exp'' w = (Ret (the (map_of REPORT_TEMPLATES ''latex_exp'')), w)"
  "lookup_template REPORT_TEMPLATES ''markdown_template'' w = (Ret (the (map_of REPORT_TEMPLATES ''markdown_template'')), w)"
  by (simp_all add: lookup_template_apply REPORT_TEMPLATES_def)

lemma lookup_slide_keys:
  "lookup_template SLIDE_TEMPLATES ''beamer'' w = (Ret (the (map_of SLIDE_TEMPLATES ''beamer'')), w)"
  "lookup_template SLIDE_TEMPLATES ''reveal-md'' w = (Ret (the (map_of SLIDE_TEMPLATES ''reveal-md'')), w)"
  "lookup_template SLIDE_TEMPLATES ''ppt'' w = (Ret (the (map_of SLIDE_TEMPLATES ''ppt'')), w)"
  by (simp_all add: lookup_template_apply SLIDE_TEMPLATES_def)

lemma announce_declined:
  assumes "cli e = No_args"
    and "r = None \<or> r = Some ''latex_exp'' \<or> r = Some ''markdown_template''"
    and "s = None \<or> s = Some ''beamer'' \<or> s = Some ''reveal-md'' \<or> s = Some ''ppt''"
    and "truthy r \<or> truthy s" and "stdin w = l # ls" and "lower (strip l) = ''n''"
  shows "\<exists>w'. announce e (r, s, p, t) w = (Sys_exit 0, w') \<and> fs w' = fs w
           \<and> make_log w' = make_log w \<and> last (stdout w') = Run Cancelled"
  using assms(2,3,4)
  by (elim disjE; simp add: announce_def run_simps input_apply lookup_report_keys
      lookup_slide_keys assms(1,5,6))

text \<open>
  Claim C10. In interactive mode, when a template has been selected and the answer to the
  final confirmation, stripped and in lower case, is \<open>n\<close>, the process ends with exit code
  \<open>0\<close>, the file system is as it was before the run, and \<open>make\<close> has not run.
\<close>

theorem declined_confirmation:
  assumes "cli e = No_args"
    and "resolve_selection e w = (Ret (r, s, p, t), w1)"
    and "truthy r \<or> truthy s"
    and "stdin w1 = l # ls" and "lower (strip l) = ''n''"
  shows "\<exists>w'. main e w = (Sys_exit 0, w') \<and> exit_code (fst (main e w)) = 0
           \<and> fs w' = fs w \<and> make_log w' = make_log w \<and> last (stdout w') = Run Cancelled"
proof -
  from interactive_selection_valid [OF assms(1,2)] assms
  obtain w' where a: "announce e (r, s, p, t) w1 = (Sys_exit 0, w')" "fs w' = fs w1"
      "make_log w' = make_log w1" "last (stdout w') = Run Cancelled"
    using announce_declined [of e r s w1 l ls p t] by auto
  have "fs w1 = fs w" "make_log w1 = make_log w"
    using keeps_resolve_selection [of e] assms(2) by (auto simp: keeps_def dest: spec [of _ w])
  moreover have "main e w = (Sys_exit 0, w')"
    using assms(2) a(1) by (simp add: main_def prepare_def run_simps)
  ultimately show ?thesis using a by simp
qed

theorem declined_confirmation_witness:
  "fst (main (ex_env make_ok No_args) (ex_world [''1'', ''1'', ''/tmp/p'', '' N ''])) = Sys_exit 0
   \<and> fs (snd (main (ex_env make_ok No_args) (ex_world [''1'', ''1'', ''/tmp/p'', '' N '']))) = ex_fs
   \<and> make_log (snd (main (ex_env make_ok No_args) (ex_world [''1'', ''1'', ''/tmp/p'', '' N '']))) = []"
proof -
  let ?e = "ex_env make_ok No_args" and ?w = "ex_world [''1'', ''1'', ''/tmp/p'', '' N '']"
  have h1: "cli ?e = No_args" by (simp add: ex_env_def)
  have "fst (resolve_selection ?e ?w) = Ret (Some ''latex_exp'', Some ''beamer'', None, [''tmp'', ''p''])"
    by code_simp
  then have h2: "resolve_selection ?e ?w =
      (Ret (Some ''latex_exp'', Some ''beamer'', None, [''tmp'', ''p'']), snd (resolve_selection ?e ?w))"
    by (rule pair_fst_snd)
  have h3: "truthy (Some ''latex_exp'') \<or> truthy (Some ''beamer'')" by simp
  have h4: "stdin (snd (resolve_selection ?e ?w)) = '' N '' # []" by code_simp
  have h5: "lower (strip '' N '') = ''n''" by code_simp
  from declined_confirmation [OF h1 h2 h3 h4 h5]
  obtain w' where "main ?e ?w = (Sys_exit 0, w')" and "fs w' = fs ?w" and "make_log w' = make_log ?w"
    by blast
  moreover have "fs ?w = ex_fs" and "make_log ?w = []"
    by (simp_all add: ex_world_def)
  ultimately show ?thesis by simp
qed

subsection \<open>The copy stage\<close>




subsection \<open>The build stage and the exit code\<close>

lemma run_make_apply:
  "run_make e d w = (Ret (fst (make_tool e d (fs w))),
     w\<lparr>fs := snd (make_tool e d (fs w)),
       make_log := make_log w @ [(d, fst (make_tool e d (fs w)))]\<rparr>)"
  by (simp add: run_make_def split: prod.splits)

lemma report_build_returns:
  "\<exists>w'. report_build k m w = (Ret (returned_zero m), w') \<and> make_log w' = make_log w
      \<and> fs w' = fs w"
  by (cases m) (auto simp: report_build_def run_simps)

lemma compile_template_log:
  "\<exists>b w'. compile_template e k ti tp ty w = (Ret b, w')
     \<and> (make_log w' = make_log w
        \<or> (\<exists>d m. make_log w' = make_log w @ [(d, m)] \<and> b = returned_zero m))"
proof (cases "has_makefile ti \<and> k \<noteq> ''ppt''")
  case False
  then show ?thesis by (auto simp: compile_template_def run_simps)
next
  case True
  define base where "base = (if ty = Some ''report'' then tp @ [''report'']
                else if ty = Some ''slide'' then tp @ [''slide'']
                else joinpath tp k)"
  show ?thesis
  proof (cases "find_makefile (fs w) base")
    case None
    with True show ?thesis by (auto simp: compile_template_def run_simps base_def)
  next
    case (Some d)
    define w1 where "w1 = w\<lparr>stdout := stdout w @ [Building (Found_makefile d), Building (Compiling k)]\<rparr>"
    define m where "m = fst (make_tool e d (fs w))"
    define w2 where "w2 = w1\<lparr>fs := snd (make_tool e d (fs w)), make_log := make_log w @ [(d, m)]\<rparr>"
    obtain w' where r: "report_build k m w2 = (Ret (returned_zero m), w')" "make_log w' = make_log w2"
      using report_build_returns by blast
    have "compile_template e k ti tp ty w = (Ret (returned_zero m), w')"
      using True Some r(1)
      by (simp add: compile_template_def run_simps run_make_apply base_def [symmetric]
          Let_def w2_def w1_def m_def)
    moreover have "make_log w' = make_log w @ [(d, m)]"
      using r(2) by (simp add: w2_def w1_def)
    ultimately show ?thesis by blast
  qed
qed

lemma copy_stage_keys:
  assumes "copy_stage e (r, s, p, t) w = (Ret b, w')"
  shows "(truthy r \<longrightarrow> map_of REPORT_TEMPLATES (the r) \<noteq> None)
       \<and> (truthy s \<longrightarrow> map_of SLIDE_TEMPLATES (the s) \<noteq> None)"
  using assms
  by (auto simp: copy_stage_def run_simps lookup_template_apply
      split: if_splits option.splits prod.splits res.splits)

lemma build_step_log:
  assumes "sel \<longrightarrow> map_of ts k \<noteq> None"
  shows "\<exists>b w'. (if sel then bind (lookup_template ts k) (\<lambda>ti. compile_template e k ti tp ty)
                  else ret True) w = (Ret b, w')
     \<and> (make_log w' = make_log w
        \<or> (\<exists>d m. make_log w' = make_log w @ [(d, m)] \<and> b = returned_zero m))"
proof (cases sel)
  case False
  then show ?thesis by (auto simp: run_simps)
next
  case True
  with assms obtain ti where "map_of ts k = Some ti" by auto
  with True show ?thesis
    using compile_template_log [of e k ti tp ty w]
    by (simp add: run_simps lookup_template_apply)
qed

lemma compile_stage_log:
  assumes "truthy r \<longrightarrow> map_of REPORT_TEMPLATES (the r) \<noteq> None"
    and "truthy s \<longrightarrow> map_of SLIDE_TEMPLATES (the s) \<noteq> None"
  shows "\<exists>b w'. compile_stage e (r, s, p, t) w = (Ret b, w')
     \<and> (\<forall>d1 m1 d2 m2. make_log w' = make_log w @ [(d1, m1), (d2, m2)] \<longrightarrow>
           b = (returned_zero m1 \<and> returned_zero m2))"
proof -
  obtain b1 w1 where s1:
    "(if truthy r then bind (lookup_template REPORT_TEMPLATES (the r))
          (\<lambda>ti. compile_template e (the r) ti t (Some ''report''))
      else ret True) w = (Ret b1, w1)"
    "make_log w1 = make_log w
       \<or> (\<exists>d m. make_log w1 = make_log w @ [(d, m)] \<and> b1 = returned_zero m)"
    using build_step_log [OF assms(1), of e t "Some ''report''" w] by blast
  have "truthy s \<and> s \<noteq> Some ''ppt'' \<longrightarrow> map_of SLIDE_TEMPLATES (the s) \<noteq> None"
    using assms(2) by simp
  from build_step_log [OF this, of e t "Some ''slide''" w1]
  obtain b2 w2 where s2:
    "(if truthy s \<and> s \<noteq> Some ''ppt'' then bind (lookup_template SLIDE_TEMPLATES (the s))
          (\<lambda>ti. compile_template e (the s) ti t (Some ''slide''))
      else ret True) w1 = (Ret b2, w2)"
    "make_log w2 = make_log w1
       \<or> (\<exists>d m. make_log w2 = make_log w1 @ [(d, m)] \<and> b2 = returned_zero m)"
    by blast
  have "compile_stage e (r, s, p, t) w = (Ret (b1 \<and> b2), w2)"
    using s1(1) s2(1) by (simp add: compile_stage_def bind_Ret ret_apply)
  moreover have "\<forall>d1 m1 d2 m2. make_log w2 = make_log w @ [(d1, m1), (d2, m2)] \<longrightarrow>
      (b1 \<and> b2) = (returned_zero m1 \<and> returned_zero m2)"
    using s1(2) s2(2) by auto
  ultimately show ?thesis by blast
qed

lemma keepsD: "keeps g m \<Longrightarrow> m w = (r, w') \<Longrightarrow> g w' = g w"
  by (auto simp: keeps_def dest: spec [of _ w])

lemma no_exitD: "no_exit m \<Longrightarrow> m w \<noteq> (Sys_exit n, w')"
  by (auto simp: no_exit_def dest!: spec [of _ w])

lemma finish_failed:
  "finish e sel False w = (Sys_exit 1, w\<lparr>stdout := stdout w @ [Run Err_copy]\<rparr>)"
  by (simp add: finish_def run_simps)

lemma finish_built:
  assumes "compile_stage e sel
     (w\<lparr>stdout := stdout w @ [Run Rule_after_blank, Run Title_compile, Run Rule_then_blank]\<rparr>)
     = (Ret b, w2)"
  shows "finish e sel True w =
     (Ret (), w2\<lparr>stdout := stdout w2 @
        [Run Rule_after_blank, Run Title_done, Run Rule, Run (Copied_to (snd (snd (snd sel)))),
         Run (if b then All_built else Some_build_failed), Run Rule_then_blank]\<rparr>)"
  using assms by (simp add: finish_def run_simps)

lemma main_after_prepare:
  assumes "prepare e w = (Ret sel, w0)" and "copy_stage e sel w0 = (c, w1)"
  shows "main e w = (case c of Ret ok \<Rightarrow> finish e sel ok w1 | Raise x \<Rightarrow> (Raise x, w1)
     | Sys_exit n \<Rightarrow> (Sys_exit n, w1))"
  using assms by (simp add: main_def bind_apply split: res.splits)

text \<open>
  Claim C2. For a run that reaches the copy stage: when a copy fails (the stage returns
  \<open>False\<close>, or an exception escapes from it), the process ends with exit code \<open>1\<close> in
  the world the copy stage has left, with the error line after a returned \<open>False\<close>, and
  \<open>make\<close> has not run; when all copies succeed, the build stage returns some flag, the
  summary reports that flag, and the exit code is \<open>0\<close> whatever the flag is.
\<close>

theorem copy_failure_aborts:
  assumes "prepare e w = (Ret sel, w0)" and "copy_stage e sel w0 = (c, w1)"
  shows "(c = Ret False \<longrightarrow>
            main e w = (Sys_exit 1, w1\<lparr>stdout := stdout w1 @ [Run Err_copy]\<rparr>))
       \<and> (\<forall>x. c = Raise x \<longrightarrow> main e w = (Raise x, w1))
       \<and> (c \<noteq> Ret True \<longrightarrow>
            exit_code (fst (main e w)) = 1 \<and> make_log (snd (main e w)) = make_log w)
       \<and> (c = Ret True \<longrightarrow>
            exit_code (fst (main e w)) = 0
            \<and> (\<exists>b w2. compile_stage e sel
                  (w1\<lparr>stdout := stdout w1 @
                      [Run Rule_after_blank, Run Title_compile, Run Rule_then_blank]\<rparr>)
                  = (Ret b, w2)
                \<and> main e w =
                    (Ret (), w2\<lparr>stdout := stdout w2 @
                       [Run Rule_after_blank, Run Title_done, Run Rule,
                        Run (Copied_to (snd (snd (snd sel)))),
                        Run (if b then All_built else Some_build_failed),
                        Run Rule_then_blank]\<rparr>)))"
proof -
  note m = main_after_prepare [OF assms]
  have log: "make_log w1 = make_log w"
    using keepsD [OF keeps_log_prepare assms(1)] keepsD [OF keeps_log_copy_stage assms(2)]
    by simp
  show ?thesis
  proof (cases c)
    case (Ret ok)
    show ?thesis
    proof (cases ok)
      case False
      with Ret m log show ?thesis by (simp add: finish_failed)
    next
      case True
      obtain r s p t where sel: "sel = (r, s, p, t)" by (cases sel) auto
      from copy_stage_keys [of e r s p t w0 ok w1] assms(2) Ret sel
      have keys: "truthy r \<longrightarrow> map_of REPORT_TEMPLATES (the r) \<noteq> None"
        "truthy s \<longrightarrow> map_of SLIDE_TEMPLATES (the s) \<noteq> None"
        by auto
      from compile_stage_log [OF keys, of e p t]
      obtain b w2 where "compile_stage e sel
          (w1\<lparr>stdout := stdout w1 @ [Run Rule_after_blank, Run Title_compile, Run Rule_then_blank]\<rparr>)
          = (Ret b, w2)"
        unfolding sel by blast
      with finish_built [OF this] Ret True m show ?thesis by simp
    qed
  next
    case (Raise x)
    with m log show ?thesis by simp
  next
    case (Sys_exit n)
    with assms(2) no_exitD [OF no_exit_copy_stage] show ?thesis by blast
  qed
qed

theorem copy_failure_aborts_witness:
  "exit_code (fst (main (ex_env make_ok (Parsed ex_flags)) (ex_world_old [''n'']))) = 1
   \<and> make_log (snd (main (ex_env make_ok (Parsed ex_flags)) (ex_world_old [''n'']))) = []
   \<and> fst (main (ex_env make_ok (Parsed ex_flags)) (ex_world_old [])) = Raise EOFError
   \<and> exit_code (fst (main (ex_env make_ok (Parsed ex_flags)) (ex_world_old []))) = 1
   \<and> exit_code (fst (main (ex_env make_fails (Parsed ex_flags)) (ex_world []))) = 0
   \<and> summary_line (snd (main (ex_env make_fails (Parsed ex_flags)) (ex_world []))) = Run Some_build_failed"
proof -
  let ?sel = "(Some ''latex_exp'', Some ''beamer'', None, [''tmp'', ''proj''])"
  let ?e = "ex_env make_ok (Parsed ex_flags)" and ?w = "ex_world_old [''n'']"
  have "fst (prepare ?e ?w) = Ret ?sel" by code_simp
  then have p: "prepare ?e ?w = (Ret ?sel, snd (prepare ?e ?w))" by (rule pair_fst_snd)
  have "fst (copy_stage ?e ?sel (snd (prepare ?e ?w))) = Ret False" by code_simp
  then have c: "copy_stage ?e ?sel (snd (prepare ?e ?w))
      = (Ret False, snd (copy_stage ?e ?sel (snd (prepare ?e ?w))))"
    by (rule pair_fst_snd)
  let ?e' = "ex_env make_fails (Parsed ex_flags)" and ?w' = "ex_world []"
  have "fst (prepare ?e' ?w') = Ret ?sel" by code_simp
  then have p': "prepare ?e' ?w' = (Ret ?sel, snd (prepare ?e' ?w'))" by (rule pair_fst_snd)
  have "fst (copy_stage ?e' ?sel (snd (prepare ?e' ?w'))) = Ret True" by code_simp
  then have c': "copy_stage ?e' ?sel (snd (prepare ?e' ?w'))
      = (Ret True, snd (copy_stage ?e' ?sel (snd (prepare ?e' ?w'))))"
    by (rule pair_fst_snd)
  let ?v = "ex_world_old []"
  have "fst (prepare ?e ?v) = Ret ?sel" by code_simp
  then have q: "prepare ?e ?v = (Ret ?sel, snd (prepare ?e ?v))" by (rule pair_fst_snd)
  have "fst (copy_stage ?e ?sel (snd (prepare ?e ?v))) = Raise EOFError" by code_simp
  then have d: "copy_stage ?e ?sel (snd (prepare ?e ?v))
      = (Raise EOFError, snd (copy_stage ?e ?sel (snd (prepare ?e ?v))))"
    by (rule pair_fst_snd)
  note t = copy_failure_aborts [OF p c] and t' = copy_failure_aborts [OF p' c']
    and u = copy_failure_aborts [OF q d]
  have "main ?e ?v = (Raise EOFError, snd (copy_stage ?e ?sel (snd (prepare ?e ?v))))"
    using u by blast
  then have "fst (main ?e ?v) = Raise EOFError" and "exit_code (fst (main ?e ?v)) = 1"
    by simp_all
  moreover
  have "exit_code (fst (main ?e ?w)) = 1 \<and> make_log (snd (main ?e ?w)) = make_log ?w"
    using t by blast
  moreover have "make_log ?w = []" by (simp add: ex_world_old_def)
  moreover have "exit_code (fst (main ?e' ?w')) = 0"
    using t' by blast
  moreover have "summary_line (snd (main ?e' ?w')) = Run Some_build_failed"
    by code_simp
  ultimately show ?thesis by simp
qed

lemma prepare_flag_selection:
  assumes "cli e = Parsed a" and "prepare e w = (Ret sel, w0)"
  shows "\<exists>t. sel = (report a, slide a, ppt_template a, t)"
  using assms
  by (auto simp: prepare_def resolve_selection_def run_simps Let_def
      split: if_splits prod.splits res.splits sum.splits)

lemma summary_line_finish:
  "summary_line (w\<lparr>stdout := stdout w @ [a, b, c, d, x, y]\<rparr>) = x"
  by (simp add: summary_line_def butlast_append)

text \<open>
  Claim C1, as amended. For a flag-mode run that selects a report template and a slide
  template other than the PowerPoint one, in which \<open>make\<close> is invoked twice (so both
  copies have succeeded and both builds are attempted), \<open>main\<close> returns, so that the exit
  code is \<open>0\<close> whatever the two invocations return; the summary line reports that all
  templates are built if and only if both invocations return code \<open>0\<close>.
\<close>

theorem exit_code_ignores_builds:
  assumes "cli e = Parsed a" and "report a = Some kr" and "slide a = Some ks"
    and "ks \<noteq> ''ppt''"
    and "main e w = (res, w')"
    and "make_log w' = make_log w @ [(d1, m1), (d2, m2)]"
  shows "res = Ret () \<and> exit_code res = 0
       \<and> summary_line w' =
           Run (if returned_zero m1 \<and> returned_zero m2 then All_built else Some_build_failed)"
proof -
  obtain p0 w0 where P: "prepare e w = (p0, w0)" by (cases "prepare e w")
  have log0: "make_log w0 = make_log w" using keepsD [OF keeps_log_prepare P] .
  have grown: "make_log w' \<noteq> make_log w" using assms(6) by simp
  show ?thesis
  proof (cases p0)
    case (Raise x)
    with P assms(5) have "w' = w0" by (simp add: main_def bind_apply)
    with log0 grown show ?thesis by simp
  next
    case (Sys_exit n)
    with P assms(5) have "w' = w0" by (simp add: main_def bind_apply)
    with log0 grown show ?thesis by simp
  next
    case (Ret sel)
    with P have P': "prepare e w = (Ret sel, w0)" by simp
    from prepare_flag_selection [OF assms(1) P'] assms(2,3)
    obtain t where sel: "sel = (Some kr, Some ks, ppt_template a, t)" by auto
    obtain c w1 where C: "copy_stage e sel w0 = (c, w1)" by (cases "copy_stage e sel w0")
    note m = main_after_prepare [OF P' C]
    have log1: "make_log w1 = make_log w"
      using keepsD [OF keeps_log_copy_stage C] log0 by simp
    show ?thesis
    proof (cases c)
      case (Raise x)
      with m assms(5) log1 grown show ?thesis by simp
    next
      case (Sys_exit n)
      with m assms(5) log1 grown show ?thesis by simp
    next
      case (Ret ok)
      show ?thesis
      proof (cases ok)
        case False
        with Ret m assms(5) log1 grown show ?thesis by (auto simp: finish_failed)
      next
        case True
        define wb where "wb = w1\<lparr>stdout := stdout w1 @
          [Run Rule_after_blank, Run Title_compile, Run Rule_then_blank]\<rparr>"
        from copy_stage_keys [of e "Some kr" "Some ks" "ppt_template a" t w0 ok w1] C Ret sel
        have keys: "truthy (Some kr) \<longrightarrow> map_of REPORT_TEMPLATES (the (Some kr)) \<noteq> None"
          "truthy (Some ks) \<longrightarrow> map_of SLIDE_TEMPLATES (the (Some ks)) \<noteq> None"
          by auto
        from compile_stage_log [OF keys, of e "ppt_template a" t wb]
        obtain b w2 where cs: "compile_stage e sel wb = (Ret b, w2)"
          and two: "\<And>d1 m1 d2 m2. make_log w2 = make_log wb @ [(d1, m1), (d2, m2)] \<Longrightarrow>
                 b = (returned_zero m1 \<and> returned_zero m2)"
          unfolding sel by blast
        from finish_built [OF cs [unfolded wb_def]] Ret True m assms(5)
        have res: "res = Ret ()"
          and w': "w' = w2\<lparr>stdout := stdout w2 @
              [Run Rule_after_blank, Run Title_done, Run Rule,
               Run (Copied_to (snd (snd (snd sel)))),
               Run (if b then All_built else Some_build_failed), Run Rule_then_blank]\<rparr>"
          by simp_all
        have "make_log w2 = make_log wb @ [(d1, m1), (d2, m2)]"
          using assms(6) log1 by (simp add: w' wb_def)
        from two [OF this] have "b = (returned_zero m1 \<and> returned_zero m2)" .
        then show ?thesis using res by (simp add: w' summary_line_finish)
      qed
    qed
  qed
qed

theorem exit_code_ignores_builds_witness:
  "fst (main (ex_env make_ok (Parsed ex_flags)) (ex_world [])) = Ret ()
   \<and> summary_line (snd (main (ex_env make_ok (Parsed ex_flags)) (ex_world []))) = Run All_built
   \<and> fst (main (ex_env make_fails (Parsed ex_flags)) (ex_world [])) = Ret ()
   \<and> summary_line (snd (main (ex_env make_fails (Parsed ex_flags)) (ex_world [])))
       = Run Some_build_failed"
proof -
  let ?e = "ex_env make_ok (Parsed ex_flags)" and ?w = "ex_world []"
  let ?e' = "ex_env make_fails (Parsed ex_flags)"
  have a: "cli ?e = Parsed ex_flags" "cli ?e' = Parsed ex_flags" by (simp_all add: ex_env_def)
  have r: "report ex_flags = Some ''latex_exp''" and s: "slide ex_flags = Some ''beamer''"
    by (simp_all add: ex_flags_def)
  have k: "''beamer'' \<noteq> ''ppt''" by simp
  have m: "main ?e ?w = (fst (main ?e ?w), snd (main ?e ?w))"
    and m': "main ?e' ?w = (fst (main ?e' ?w), snd (main ?e' ?w))" by simp_all
  have l: "make_log (snd (main ?e ?w)) = make_log ?w @
      [([''tmp'', ''proj'', ''report''], Completed 0 ''built'' []),
       ([''tmp'', ''proj'', ''slide''], Completed 0 ''built'' [])]" by code_simp
  have l': "make_log (snd (main ?e' ?w)) = make_log ?w @
      [([''tmp'', ''proj'', ''report''], Completed 2 [] ''make: Error 2''),
       ([''tmp'', ''proj'', ''slide''], Completed 2 [] ''make: Error 2'')]" by code_simp
  from exit_code_ignores_builds [OF a(1) r s k m l] exit_code_ignores_builds [OF a(2) r s k m' l']
  show ?thesis by simp
qed

text \<open>
  The claim C1 as stated, that the exit code is \<open>0\<close> if and only if both invocations
  return \<open>0\<close>, fails on the example command line when \<open>make\<close> returns \<open>2\<close> twice: both
  builds run and the exit code is \<open>0\<close>.
\<close>

theorem exit_code_claim_counterexample:
  "make_log (snd (main (ex_env make_fails (Parsed ex_flags)) (ex_world []))) =
     [([''tmp'', ''proj'', ''report''], Completed 2 [] ''make: Error 2''),
      ([''tmp'', ''proj'', ''slide''], Completed 2 [] ''make: Error 2'')]
   \<and> exit_code (fst (main (ex_env make_fails (Parsed ex_flags)) (ex_world []))) = 0
   \<and> \<not> returned_zero (Completed 2 [] ''make: Error 2'')
   \<and> \<not> (exit_code (fst (main (ex_env make_fails (Parsed ex_flags)) (ex_world []))) = 0
          \<longleftrightarrow> returned_zero (Completed 2 [] ''make: Error 2'')
               \<and> returned_zero (Completed 2 [] ''make: Error 2''))"
  by code_simp

subsection \<open>The build-directory hint\<close>

text \<open>
  Claim C9. Neither the build nor the copy of a template reads the field
  \<open>makefile_path\<close> of its descriptor: with any two values of that field, from the same
  world, \<open>compile_template\<close> gives the same result and the same world, in particular the
  same directories in which \<open>make\<close> has run, and so does \<open>copy_template\<close>.
  \<open>find_makefile\<close>, the locator, is not given the descriptor at all.
\<close>

theorem hint_never_read:
  "compile_template e k (t\<lparr>makefile_path := h1\<rparr>) tp ty w
     = compile_template e k (t\<lparr>makefile_path := h2\<rparr>) tp ty w
   \<and> map fst (make_log (snd (compile_template e k (t\<lparr>makefile_path := h1\<rparr>) tp ty w)))
     = map fst (make_log (snd (compile_template e k (t\<lparr>makefile_path := h2\<rparr>) tp ty w)))
   \<and> copy_template e k (t\<lparr>makefile_path := h1\<rparr>) tp ty ip pf w
     = copy_template e k (t\<lparr>makefile_path := h2\<rparr>) tp ty ip pf w"
  by (simp add: compile_template_def copy_template_def)

theorem hint_never_read_witness:
  "map fst (make_log (snd (compile_template (ex_env make_ok No_args) ''reveal-md''
      (the (map_of SLIDE_TEMPLATES ''reveal-md'')\<lparr>makefile_path := Some ''elsewhere''\<rparr>)
      [''tmp'', ''proj''] (Some ''slide'')
      (snd (copy_stage (ex_env make_ok No_args) (None, Some ''reveal-md'', None, [''tmp'', ''proj''])
         (ex_world []))))))
   = [[''tmp'', ''proj'', ''slide'', ''slide'', ''src'']]"
proof -
  let ?e = "ex_env make_ok No_args"
  let ?t = "the (map_of SLIDE_TEMPLATES ''reveal-md'')"
  let ?w = "snd (copy_stage ?e (None, Some ''reveal-md'', None, [''tmp'', ''proj'']) (ex_world []))"
  have t: "?t\<lparr>makefile_path := Some ''slide/src''\<rparr> = ?t" by code_simp
  have "map fst (make_log (snd (compile_template ?e ''reveal-md'' ?t [''tmp'', ''proj'']
      (Some ''slide'') ?w))) = [[''tmp'', ''proj'', ''slide'', ''slide'', ''src'']]"
    by code_simp
  with hint_never_read [where e = ?e and k = "''reveal-md''" and t = ?t
      and ?h1.0 = "Some ''elsewhere''" and ?h2.0 = "Some ''slide/src''"
      and tp = "[''tmp'', ''proj'']" and ty = "Some ''slide''" and w = ?w]
  show ?thesis by (simp only: t)
qed

subsection \<open>The locator\<close>

lemma first_candidate_find:
  "first_candidate root base cs =
     map_option (joinpath base) (find (\<lambda>s. exists root (joinpath base s @ [''Makefile''])) cs)"
  by (induction cs) (simp_all add: Let_def)

lemma first_walked_find:
  "first_walked base xs =
     map_option fst (find (\<lambda>x. length (fst x) - length base \<le> 3 \<and> ''Makefile'' \<in> set (snd (snd x))) xs)"
  by (induction base xs rule: first_walked.induct) (auto simp: Let_def)

lemma os_walk_below: "(d, ds, fls) \<in> set (os_walk base n) \<Longrightarrow> prefix base d"
proof (induction base n arbitrary: d ds fls rule: os_walk.induct)
  case (1 b c)
  then show ?case by simp
next
  case (2 b es)
  from "2.prems" consider "d = b" | e where "e \<in> set es" "is_Dir (snd e)"
      "(d, ds, fls) \<in> set (os_walk (b @ [fst e]) (snd e))"
    by auto
  then show ?case
  proof cases
    case 1
    then show ?thesis by simp
  next
    case 2
    with "2.IH" [of e d ds fls] have "prefix (b @ [fst e]) d" by simp
    then show ?thesis by (meson append_prefixD)
  qed
qed

lemma find_makefile_candidate:
  assumes "\<not> exists root (base @ [''Makefile''])"
    and "exists root (base @ [''slide'', ''src'', ''Makefile''])"
  shows "find_makefile root base = Some (base @ [''slide'', ''src''])"
proof -
  have "joinpath base ''slide/src'' = base @ [''slide'', ''src'']" by code_simp
  with assms show ?thesis
    by (simp add: find_makefile_def common_subdirs_def Let_def)
qed

lemma find_Some_member: "find P xs = Some x \<Longrightarrow> P x \<and> x \<in> set xs"
  by (induction xs) (auto split: if_splits)

lemma joinpath_common:
  "joinpath base ''slide/src'' = base @ [''slide'', ''src'']"
  "joinpath base ''src'' = base @ [''src'']"
  "joinpath base ''slide'' = base @ [''slide'']"
  by code_simp+

lemma find_makefile_depth:
  assumes "find_makefile root base = Some d"
  shows "prefix base d \<and> length d \<le> length base + 3"
proof (cases "exists root (base @ [''Makefile''])")
  case True
  with assms show ?thesis by (simp add: find_makefile_def)
next
  case False
  show ?thesis
  proof (cases "first_candidate root base common_subdirs")
    case (Some c)
    with assms False have "d = c" by (simp add: find_makefile_def)
    with Some show ?thesis
      by (auto simp: common_subdirs_def joinpath_common Let_def split: if_splits)
  next
    case None
    with assms False obtain n where n: "lookup root base = Some n"
      and w: "first_walked base (os_walk base n) = Some d"
      by (auto simp: find_makefile_def split: option.splits)
    from w obtain x where x: "find (\<lambda>x. length (fst x) - length base \<le> 3
        \<and> ''Makefile'' \<in> set (snd (snd x))) (os_walk base n) = Some x" and d: "d = fst x"
      by (auto simp: first_walked_find)
    from find_Some_member [OF x] have "x \<in> set (os_walk base n)"
      and "length (fst x) - length base \<le> 3" by simp_all
    with os_walk_below [of "fst x" "fst (snd x)" "snd (snd x)" base n] d show ?thesis by auto
  qed
qed

lemma compile_template_not_found:
  assumes "has_makefile ti" and "k \<noteq> ''ppt''" and "ty = ''report'' \<or> ty = ''slide''"
    and "find_makefile (fs w) (tp @ [ty]) = None"
  shows "compile_template e k ti tp (Some ty) w =
           (Ret False, w\<lparr>stdout := stdout w @ [Building (Warn_no_makefile k)]\<rparr>)"
  using assms by (auto simp: compile_template_def run_simps)

text \<open>
  Claim C3, as amended. \<open>find_makefile\<close> looks first at the root itself, then at the
  candidates \<open>slide/src\<close>, \<open>src\<close> and \<open>slide\<close> in this order (an entry named \<open>Makefile\<close>
  is what it looks for in both), then walks the tree top-down and depth-first, in the
  order of the listings (\<open>os_walk\<close>), and returns the first walked directory at most three
  levels below the root that has an entry \<open>Makefile\<close> that is not a directory; otherwise
  it returns \<open>None\<close>. A directory it returns is the root or lies at most three levels
  below it. In particular, with no \<open>Makefile\<close> in the root and one at
  \<open>slide/src/Makefile\<close> it returns that directory; and when it returns \<open>None\<close> for a
  template to build, \<open>compile_template\<close> prints the warning and returns \<open>False\<close> without
  running \<open>make\<close> and without raising.
\<close>

theorem find_makefile_order:
  "find_makefile root base =
     (if exists root (base @ [''Makefile'']) then Some base
      else (case find (\<lambda>s. exists root (joinpath base s @ [''Makefile'']))
                  [''slide/src'', ''src'', ''slide''] of
              Some s \<Rightarrow> Some (joinpath base s)
            | None \<Rightarrow>
                map_option fst
                  (find (\<lambda>x. length (fst x) - length base \<le> 3 \<and> ''Makefile'' \<in> set (snd (snd x)))
                     (case lookup root base of None \<Rightarrow> [] | Some n \<Rightarrow> os_walk base n))))
   \<and> (\<not> exists root (base @ [''Makefile'']) \<and> exists root (base @ [''slide'', ''src'', ''Makefile''])
        \<longrightarrow> find_makefile root base = Some (base @ [''slide'', ''src'']))
   \<and> (has_makefile ti \<and> k \<noteq> ''ppt'' \<and> (ty = ''report'' \<or> ty = ''slide'')
        \<and> find_makefile (fs w) (tp @ [ty]) = None
        \<longrightarrow> compile_template e k ti tp (Some ty) w =
              (Ret False, w\<lparr>stdout := stdout w @ [Building (Warn_no_makefile k)]\<rparr>))
   \<and> (\<forall>d. find_makefile root base = Some d \<longrightarrow> prefix base d \<and> length d \<le> length base + 3)"
proof -
  have "find_makefile root base =
     (if exists root (base @ [''Makefile'']) then Some base
      else (case find (\<lambda>s. exists root (joinpath base s @ [''Makefile'']))
                  [''slide/src'', ''src'', ''slide''] of
              Some s \<Rightarrow> Some (joinpath base s)
            | None \<Rightarrow>
                map_option fst
                  (find (\<lambda>x. length (fst x) - length base \<le> 3 \<and> ''Makefile'' \<in> set (snd (snd x)))
                     (case lookup root base of None \<Rightarrow> [] | Some n \<Rightarrow> os_walk base n))))"
    unfolding find_makefile_def first_candidate_find first_walked_find common_subdirs_def
    by (simp split: option.splits)
  then show ?thesis
    using find_makefile_candidate [of root base] compile_template_not_found [of ti k ty w tp e]
      find_makefile_depth [of root base]
    by blast
qed

theorem find_makefile_order_witness:
  "find_makefile ex_repo [''reveal-md''] = Some [''reveal-md'', ''slide'', ''src'']
   \<and> find_makefile ex_deep [''slide''] = None
   \<and> compile_template (ex_env make_ok No_args) ''beamer'' (the (map_of SLIDE_TEMPLATES ''beamer''))
        [] (Some ''slide'') \<lparr>fs = ex_deep, stdin = [], stdout = [], make_log = []\<rparr>
      = (Ret False, \<lparr>fs = ex_deep, stdin = [], stdout = [Building (Warn_no_makefile ''beamer'')],
           make_log = []\<rparr>)"
proof -
  let ?w = "\<lparr>fs = ex_deep, stdin = [], stdout = [], make_log = []\<rparr>"
  let ?ti = "the (map_of SLIDE_TEMPLATES ''beamer'')"
  have a: "\<not> exists ex_repo ([''reveal-md''] @ [''Makefile''])
      \<and> exists ex_repo ([''reveal-md''] @ [''slide'', ''src'', ''Makefile''])"
    by code_simp
  have b: "find_makefile ex_deep [''slide''] = None" by code_simp
  then have c: "has_makefile ?ti \<and> ''beamer'' \<noteq> ''ppt'' \<and> (''slide'' = ''report'' \<or> ''slide'' = ''slide'')
      \<and> find_makefile (fs ?w) ([] @ [''slide'']) = None"
    by (simp add: SLIDE_TEMPLATES_def)
  note t = find_makefile_order [of ex_repo "[''reveal-md'']" ?ti "''beamer''" "''slide''" ?w "[]"
      "ex_env make_ok No_args"]
  from t [THEN conjunct2, THEN conjunct1] a
  have "find_makefile ex_repo [''reveal-md''] = Some ([''reveal-md''] @ [''slide'', ''src''])"
    by blast
  moreover from t [THEN conjunct2, THEN conjunct2, THEN conjunct1] c
  have "compile_template (ex_env make_ok No_args) ''beamer'' ?ti [] (Some ''slide'') ?w =
      (Ret False, ?w\<lparr>stdout := stdout ?w @ [Building (Warn_no_makefile ''beamer'')]\<rparr>)"
    by blast
  ultimately show ?thesis using b by simp
qed

text \<open>
  The claim C3 as stated has the third step breadth-first. On the tree \<open>ex_nested\<close> the
  script returns \<open>slide/docs/figures\<close>, two levels down in the first directory, where a
  breadth-first search returns \<open>slide/talk\<close>, one level down.
\<close>

theorem breadth_first_counterexample:
  "find_makefile ex_nested [''slide''] = Some [''slide'', ''docs'', ''figures'']
   \<and> find_makefile_breadth_first ex_nested [''slide''] = Some [''slide'', ''talk'']
   \<and> find_makefile ex_nested [''slide''] \<noteq> find_makefile_breadth_first ex_nested [''slide'']"
  by code_simp

subsection \<open>The copied tree\<close>

lemma lookup_append:
  "lookup root (p @ q) = (case lookup root p of None \<Rightarrow> None | Some n \<Rightarrow> lookup n q)"
  by (induction root p rule: lookup.induct) (auto split: option.splits)

lemma map_of_filtered:
  "map_of (map (\<lambda>e. (fst e, f (snd e))) (filter (\<lambda>e. \<not> ig (fst e)) es)) x =
     (if ig x then None else map_option f (map_of es x))"
  by (induction es) auto

lemma lookup_copy_filtered:
  "lookup (copy_filtered ig n) p =
     (if list_ex ig p then None else map_option (copy_filtered ig) (lookup n p))"
proof (induction n p rule: lookup.induct)
  case (1 n)
  then show ?case by simp
next
  case (2 c x xs)
  then show ?case by simp
next
  case (3 es x xs)
  show ?case
  proof (cases "ig x")
    case True
    then show ?thesis by (simp add: map_of_filtered)
  next
    case False
    show ?thesis
    proof (cases "map_of es x")
      case None
      with False show ?thesis by (simp add: map_of_filtered)
    next
      case (Some ch)
      with False "3.IH" [of ch] show ?thesis by (simp add: map_of_filtered)
    qed
  qed
qed

lemma makedirs_put_lookup:
  "makedirs_put root p n = Inr r \<Longrightarrow> lookup r p = Some n"
proof (induction root p n arbitrary: r rule: makedirs_put.induct)
  case (4 es x y ys n)
  then show ?case
    by (auto simp: update_conv' split: sum.splits option.splits)
qed (auto simp: update_conv' split: if_splits)

lemma makedirs_put_fresh:
  "makedirs_put root p n = Inr r \<Longrightarrow> lookup root p = None"
proof (induction root p n arbitrary: r rule: makedirs_put.induct)
  case (4 es x y ys n)
  then show ?case
    by (auto split: sum.splits option.splits)
qed (auto split: if_splits)

lemma makedirs_put_other:
  "makedirs_put root p n = Inr r \<Longrightarrow> \<not> prefix p q \<Longrightarrow> \<not> prefix q p \<Longrightarrow>
   lookup r q = lookup root q"
proof (induction root p n arbitrary: r q rule: makedirs_put.induct)
  case (1 root n)
  then show ?case by simp
next
  case (2 c x xs n)
  then show ?case by simp
next
  case (3 es x n)
  then show ?case
    by (cases q) (auto simp: update_conv' split: if_splits)
next
  case (4 es x y ys n)
  from "4.prems"(3) obtain z zs where q: "q = z # zs" by (cases q) auto
  from "4.prems"(1) obtain ch' where
    ch': "makedirs_put (case map_of es x of None \<Rightarrow> Dir [] | Some ch \<Rightarrow> ch) (y # ys) n = Inr ch'"
    and r: "r = Dir (AList.update x ch' es)"
    by (auto split: sum.splits)
  show ?case
  proof (cases "z = x")
    case False
    then show ?thesis by (simp add: q r update_conv')
  next
    case True
    with "4.prems"(2,3) q have "\<not> prefix (y # ys) zs" "\<not> prefix zs (y # ys)" by auto
    from "4.IH" [OF ch' this] have "lookup ch' zs =
        lookup (case map_of es x of None \<Rightarrow> Dir [] | Some ch \<Rightarrow> ch) zs" .
    moreover have "zs \<noteq> []" using \<open>\<not> prefix zs (y # ys)\<close> by auto
    ultimately show ?thesis
      using True by (cases zs) (auto simp: q r update_conv' split: option.splits)
  qed
qed

lemma remove_other:
  "remove root p = Inr r \<Longrightarrow> \<not> prefix p q \<Longrightarrow> \<not> prefix q p \<Longrightarrow> lookup r q = lookup root q"
proof (induction root p arbitrary: r q rule: remove.induct)
  case (1 root)
  then show ?case by simp
next
  case (2 c x xs)
  then show ?case by simp
next
  case (3 es x)
  then show ?case
    by (cases q) (auto simp: delete_conv' split: if_splits)
next
  case (4 es x y ys)
  from "4.prems"(3) obtain z zs where q: "q = z # zs" by (cases q) auto
  from "4.prems"(1) obtain ch ch' where ch: "map_of es x = Some ch"
    and ch': "remove ch (y # ys) = Inr ch'" and r: "r = Dir (AList.update x ch' es)"
    by (auto split: sum.splits option.splits)
  show ?case
  proof (cases "z = x")
    case False
    then show ?thesis by (simp add: q r update_conv')
  next
    case True
    with "4.prems"(2,3) q have "\<not> prefix (y # ys) zs" "\<not> prefix zs (y # ys)" by auto
    from "4.IH" [OF ch ch' this] have "lookup ch' zs = lookup ch zs" .
    then show ?thesis using True ch by (simp add: q r update_conv')
  qed
qed

lemma remove_below:
  "remove root p = Inr r \<Longrightarrow> prefix p q \<Longrightarrow> lookup r q = None"
proof (induction root p arbitrary: r q rule: remove.induct)
  case (1 root)
  then show ?case by simp
next
  case (2 c x xs)
  then show ?case by simp
next
  case (3 es x)
  then show ?case
    by (cases q) (auto simp: delete_conv' split: if_splits)
next
  case (4 es x y ys)
  from "4.prems"(2) obtain zs where q: "q = x # zs" and zs: "prefix (y # ys) zs"
    by (cases q) auto
  from "4.prems"(1) obtain ch ch' where ch: "map_of es x = Some ch"
    and ch': "remove ch (y # ys) = Inr ch'" and r: "r = Dir (AList.update x ch' es)"
    by (auto split: sum.splits option.splits)
  from "4.IH" [OF ch ch' zs] show ?case by (simp add: q r update_conv')
qed

lemma lookup_prefix_None: "lookup root p = None \<Longrightarrow> prefix p q \<Longrightarrow> lookup root q = None"
  by (auto simp: prefix_def lookup_append)

lemma copytree_result:
  assumes "copytree root src dst ig = Inr r" and "\<not> prefix src dst"
  shows "\<exists>es. lookup root src = Some (Dir es) \<and> lookup r src = Some (Dir es)
           \<and> lookup r dst = Some (copy_filtered ig (Dir es))"
proof -
  from assms(1) obtain es where es: "lookup root src = Some (Dir es)"
    and put: "makedirs_put root dst (copy_filtered ig (Dir es)) = Inr r"
    by (auto simp: copytree_def split: option.splits node.splits if_splits)
  have "lookup root dst = None" using makedirs_put_fresh [OF put] .
  with es have "\<not> prefix dst src" using lookup_prefix_None by fastforce
  from makedirs_put_other [OF put this assms(2)] es makedirs_put_lookup [OF put]
  show ?thesis by simp
qed

lemma rmtree_source:
  assumes "rmtree root dst = Inr f1" and "lookup f1 src \<noteq> None" and "\<not> prefix src dst"
  shows "lookup f1 src = lookup root src"
proof -
  from assms(1) have rm: "remove root dst = Inr f1"
    by (auto simp: rmtree_def split: option.splits node.splits)
  have "\<not> prefix dst src"
  proof
    assume "prefix dst src"
    from remove_below [OF rm this] assms(2) show False by simp
  qed
  from remove_other [OF rm this assms(3)] show ?thesis .
qed

lemma copy_template_tree_success:
  assumes "copy_template e k ti tp (Some ''report'') False pf w = (Ret True, w')"
  shows "\<exists>f1. (f1 = fs w \<or> rmtree (fs w) (tp @ [''report'']) = Inr f1)
     \<and> copytree f1 (joinpath (script_dir e) (path ti)) (tp @ [''report'']) ignored = Inr (fs w')"
  using assms
  by (auto simp: copy_template_def copy_tree_to_def run_simps input_apply change_fs_apply Let_def
      split: if_splits list.splits sum.splits)

lemma report_source_path:
  assumes "map_of REPORT_TEMPLATES K = Some ti"
  shows "joinpath (script_dir e) (path ti) = script_dir e @ [K]"
proof -
  have "joinpath d ''latex_exp'' = d @ [''latex_exp'']"
    and "joinpath d ''markdown_template'' = d @ [''markdown_template'']" for d
    by code_simp+
  with assms show ?thesis
    by (auto simp: REPORT_TEMPLATES_def split: if_splits)
qed

lemma ignored_iff:
  "ignored n \<longleftrightarrow>
     n = ''site'' \<or> n = ''__pycache__'' \<or> n = ''.git''
     \<or> list_ex (\<lambda>x. suffix x n)
          [''.aux'', ''.log'', ''.out'', ''.toc'', ''.synctex.gz'', ''.bbl'', ''.blg'', ''.fls'',
           ''.fdb_latexmk'', ''.nav'', ''.snm'', ''.vrb'', ''.pdf'', ''.pyc'']"
proof -
  have star: "fnmatch n (CHR ''*'' # lit) = suffix lit n"
    if "CHR ''*'' \<notin> set lit" "CHR ''?'' \<notin> set lit" for lit
    using that by (rule fnmatch_star_literal)
  have lit: "fnmatch n lit = (n = lit)" if "CHR ''*'' \<notin> set lit" "CHR ''?'' \<notin> set lit" for lit
    using that by (rule fnmatch_literal)
  show ?thesis
    unfolding ignored_def IGNORE_PATTERNS_def
    by (simp add: star lit) blast
qed

text \<open>
  Claim C4, as amended. For a valid report key \<open>K\<close>, when the copy of its template
  succeeds and the destination \<open>target/report\<close> does not lie inside the source tree of
  \<open>K\<close>, the destination exists, the source tree is what it was, and a path below the
  destination leads to what the same path leads to below the source, copied in the same
  way, unless one of its components matches an exclusion pattern, in which case it leads
  to nothing. (\<open>ignored_iff\<close> spells the patterns out.)
\<close>

theorem report_copy_is_filtered_source:
  assumes "map_of REPORT_TEMPLATES K = Some ti"
    and "copy_template e K ti tp (Some ''report'') False None w = (Ret True, w')"
    and "\<not> prefix (script_dir e @ [K]) (tp @ [''report''])"
  shows "exists (fs w') (tp @ [''report''])
       \<and> lookup (fs w') (script_dir e @ [K]) = lookup (fs w) (script_dir e @ [K])
       \<and> (\<forall>p. lookup (fs w') (tp @ [''report''] @ p) =
              (if list_ex ignored p then None
               else map_option (copy_filtered ignored) (lookup (fs w) (script_dir e @ [K] @ p))))"
proof -
  let ?src = "script_dir e @ [K]" and ?dst = "tp @ [''report'']"
  from copy_template_tree_success [OF assms(2)]
  obtain f1 where f1: "f1 = fs w \<or> rmtree (fs w) ?dst = Inr f1"
    and ct: "copytree f1 ?src ?dst ignored = Inr (fs w')"
    unfolding report_source_path [OF assms(1)] by blast
  from copytree_result [OF ct assms(3)]
  obtain es where es: "lookup f1 ?src = Some (Dir es)" "lookup (fs w') ?src = Some (Dir es)"
      "lookup (fs w') ?dst = Some (copy_filtered ignored (Dir es))"
    by blast
  have src: "lookup (fs w) ?src = Some (Dir es)"
    using f1 es(1) rmtree_source [of "fs w" ?dst f1 ?src] assms(3) by auto
  have "lookup (fs w') (?dst @ p) =
      (if list_ex ignored p then None
       else map_option (copy_filtered ignored) (lookup (fs w) (?src @ p)))" for p
    using es(3) src lookup_append [of "fs w'" ?dst p] lookup_append [of "fs w" ?src p]
      lookup_copy_filtered [of ignored "Dir es" p]
    by simp
  with es src show ?thesis by (simp add: exists_def)
qed

theorem report_copy_is_filtered_source_witness:
  "exists (fs (snd (copy_template (ex_env make_ok (Parsed ex_flags)) ''latex_exp''
        (the (map_of REPORT_TEMPLATES ''latex_exp'')) [''tmp'', ''proj''] (Some ''report'') False None
        (ex_world [])))) [''tmp'', ''proj'', ''report'']
   \<and> lookup (fs (snd (copy_template (ex_env make_ok (Parsed ex_flags)) ''latex_exp''
        (the (map_of REPORT_TEMPLATES ''latex_exp'')) [''tmp'', ''proj''] (Some ''report'') False None
        (ex_world [])))) [''tmp'', ''proj'', ''report'', ''main.tex''] = Some (File ''report'')
   \<and> lookup (fs (snd (copy_template (ex_env make_ok (Parsed ex_flags)) ''latex_exp''
        (the (map_of REPORT_TEMPLATES ''latex_exp'')) [''tmp'', ''proj''] (Some ''report'') False None
        (ex_world [])))) [''tmp'', ''proj'', ''report'', ''main.aux''] = None
   \<and> lookup (fs (snd (copy_template (ex_env make_ok (Parsed ex_flags)) ''latex_exp''
        (the (map_of REPORT_TEMPLATES ''latex_exp'')) [''tmp'', ''proj''] (Some ''report'') False None
        (ex_world [])))) [''tmp'', ''proj'', ''report'', ''.git'', ''HEAD''] = None"
proof -
  let ?e = "ex_env make_ok (Parsed ex_flags)" and ?ti = "the (map_of REPORT_TEMPLATES ''latex_exp'')"
  let ?c = "copy_template ?e ''latex_exp'' ?ti [''tmp'', ''proj''] (Some ''report'') False None (ex_world [])"
  have k: "map_of REPORT_TEMPLATES ''latex_exp'' = Some ?ti" by code_simp
  have "fst ?c = Ret True" by code_simp
  then have c: "?c = (Ret True, snd ?c)" by (rule pair_fst_snd)
  have n: "\<not> prefix (script_dir ?e @ [''latex_exp'']) ([''tmp'', ''proj''] @ [''report''])"
    by (simp add: ex_env_def)
  note t = report_copy_is_filtered_source [OF k c n]
  have a: "exists (fs (snd ?c)) [''tmp'', ''proj'', ''report'']"
    using t by simp
  have p: "lookup (fs (snd ?c)) ([''tmp'', ''proj''] @ [''report''] @ q) =
      (if list_ex ignored q then None
       else map_option (copy_filtered ignored)
         (lookup (fs (ex_world [])) (script_dir ?e @ [''latex_exp''] @ q)))" for q
    using t by blast
  have i1: "\<not> list_ex ignored [''main.tex'']" and i2: "list_ex ignored [''main.aux'']"
    and i3: "list_ex ignored [''.git'', ''HEAD'']" by code_simp+
  have s: "lookup (fs (ex_world [])) (script_dir ?e @ [''latex_exp''] @ [''main.tex''])
      = Some (File ''report'')" by code_simp
  from p [of "[''main.tex'']"] p [of "[''main.aux'']"] p [of "[''.git'', ''HEAD'']"] i1 i2 i3 s a
  show ?thesis by simp
qed

text \<open>
  The claim C4 as stated holds for every target. With the template directory itself as
  the target and its directory \<open>report\<close> overwritten on confirmation, the run succeeds and
  \<open>target/report\<close> is neither the filtered source tree as it was before the run (which
  had \<open>report/old.txt\<close>, not excluded) nor the filtered source tree as it is after the run.
\<close>

theorem copy_into_source_counterexample:
  "fst (main (ex_env make_ok (Parsed ex_flags_self))
          \<lparr>fs = ex_fs_self, stdin = [''y''], stdout = [], make_log = []\<rparr>) = Ret ()
   \<and> lookup ex_fs_self [''repo'', ''latex_exp'', ''report'', ''old.txt''] = Some (File ''old'')
   \<and> \<not> list_ex ignored [''report'', ''old.txt'']
   \<and> lookup (fs (snd (main (ex_env make_ok (Parsed ex_flags_self))
          \<lparr>fs = ex_fs_self, stdin = [''y''], stdout = [], make_log = []\<rparr>)))
        [''repo'', ''latex_exp'', ''report'', ''report'', ''old.txt''] = None
   \<and> lookup (fs (snd (main (ex_env make_ok (Parsed ex_flags_self))
          \<lparr>fs = ex_fs_self, stdin = [''y''], stdout = [], make_log = []\<rparr>)))
        [''repo'', ''latex_exp'', ''report'']
       = Some (Dir [(''main.tex'', File ''report''), (''Makefile'', File ''all:'')])
   \<and> lookup (fs (snd (main (ex_env make_ok (Parsed ex_flags_self))
          \<lparr>fs = ex_fs_self, stdin = [''y''], stdout = [], make_log = []\<rparr>)))
        [''repo'', ''latex_exp'', ''report'']
       \<noteq> map_option (copy_filtered ignored) (lookup ex_fs_self [''repo'', ''latex_exp''])
   \<and> lookup (fs (snd (main (ex_env make_ok (Parsed ex_flags_self))
          \<lparr>fs = ex_fs_self, stdin = [''y''], stdout = [], make_log = []\<rparr>)))
        [''repo'', ''latex_exp'', ''report'']
       \<noteq> map_option (copy_filtered ignored)
           (lookup (fs (snd (main (ex_env make_ok (Parsed ex_flags_self))
              \<lparr>fs = ex_fs_self, stdin = [''y''], stdout = [], make_log = []\<rparr>)))
            [''repo'', ''latex_exp''])"
  by code_simp

end
